theory Spec2Isabelle
  imports Main "HOL-Library.Sublist"
begin

section \<open>The catalogue table\<close>

text \<open>
  The script \<^verbatim>\<open>netflix_analysis.py\<close> reads a CSV file into a data frame, cleans it and
  derives five summaries. The rows of a data frame are a list of records, one field
  per column the script names. A text cell is \<open>None\<close> when the reader found it empty
  (the library's NaN). The date column changes its content during cleaning, from text
  to time stamps, so its cell type has both.

  A string is the list of the bytes of the UTF-8 encoding of the Python string. The
  patterns the script searches for are ASCII, so cutting and replacing on the bytes is
  cutting and replacing on the characters.

  Assumptions on the library, which the repository does not pin: it is pandas 2, where
  a chained \<^verbatim>\<open>fillna(..., inplace=True)\<close> on a column selected from the frame updates
  the frame, and where the conversion of line 34 leaves a column of time stamps, on
  which the \<^verbatim>\<open>.dt\<close> accessor is defined. Time of day and time zone are left out.
\<close>

datatype month =
  January | February | March | April | May | June
  | July | August | September | October | November | December

record timestamp =
  year :: int
  month :: month
  day :: nat

datatype date_cell = Null | Raw string | Stamp timestamp

record row =
  type :: "string option"
  director :: "string option"
  cast :: "string option"
  country :: "string option"
  date_added :: date_cell
  release_year :: "int option"
  rating :: "string option"
  duration :: "string option"
  listed_in :: "string option"
  other_columns :: "(string \<times> string option) list"

text \<open>The cleaned table has two more columns, assigned at lines 37 and 38.\<close>

record cleaned_row = row +
  year_added :: "int option"
  month_added :: "string option"

text \<open>
  A data frame also knows the type of each column, which the reader fixes when it
  reads the file and which dropping rows does not change. The reader makes a column of
  text cells an object column, except that a column in which every cell is empty, in a
  file that has records, becomes a column of floating point numbers. The script uses
  the \<^verbatim>\<open>.str\<close> accessor on three columns; the frame records the type of these.

  The cells of these three columns are strings and nulls, which is what the reader
  leaves in a column of the catalogue. A file in which every cell of one of them is a
  numeral or a truth value is read as a column of numbers or truth values, and is not
  among the tables of this model.
\<close>

datatype dtype = Object | Float64 | Datetime64

record 'r frame =
  rows :: "'r list"
  date_added_dtype :: dtype
  duration_dtype :: dtype
  listed_in_dtype :: dtype

definition inferred_dtype :: "('c \<Rightarrow> bool) \<Rightarrow> 'c list \<Rightarrow> dtype" where
  "inferred_dtype isnull col =
     (if col \<noteq> [] \<and> (\<forall>c \<in> set col. isnull c) then Float64 else Object)"

definition read_frame :: "row list \<Rightarrow> row frame" where
  "read_frame rs =
     \<lparr>rows = rs,
      date_added_dtype = inferred_dtype (\<lambda>c. c = Null) (map date_added rs),
      duration_dtype = inferred_dtype (\<lambda>c. c = None) (map duration rs),
      listed_in_dtype = inferred_dtype (\<lambda>c. c = None) (map listed_in rs)\<rparr>"

text \<open>
  \<^verbatim>\<open>column.str\<close> raises \<^verbatim>\<open>AttributeError\<close> unless the column is an object column.
  \<open>None\<close> stands for that exception where a value is computed through the accessor.
\<close>

definition str_accessor :: "dtype \<Rightarrow> 'a \<Rightarrow> 'a option" where
  "str_accessor dt x = (if dt = Object then Some x else None)"

section \<open>The library operations the script calls\<close>

subsection \<open>Strings\<close>

text \<open>
  \<^verbatim>\<open>str.strip()\<close> removes the white space characters at both ends. These are the
  characters Python counts as white space, each given by its UTF-8 encoding: U+0009 to
  U+000D, U+001C to U+0020, U+0085, U+00A0, U+1680, U+2000 to U+200A, U+2028, U+2029,
  U+202F, U+205F and U+3000.
\<close>

definition white_space :: "string list" where
  "white_space =
     [[CHR 0x09], [CHR 0x0A], [CHR 0x0B], [CHR 0x0C], [CHR 0x0D],
      [CHR 0x1C], [CHR 0x1D], [CHR 0x1E], [CHR 0x1F], [CHR 0x20],
      [CHR 0xC2, CHR 0x85], [CHR 0xC2, CHR 0xA0], [CHR 0xE1, CHR 0x9A, CHR 0x80],
      [CHR 0xE2, CHR 0x80, CHR 0x80], [CHR 0xE2, CHR 0x80, CHR 0x81],
      [CHR 0xE2, CHR 0x80, CHR 0x82], [CHR 0xE2, CHR 0x80, CHR 0x83],
      [CHR 0xE2, CHR 0x80, CHR 0x84], [CHR 0xE2, CHR 0x80, CHR 0x85],
      [CHR 0xE2, CHR 0x80, CHR 0x86], [CHR 0xE2, CHR 0x80, CHR 0x87],
      [CHR 0xE2, CHR 0x80, CHR 0x88], [CHR 0xE2, CHR 0x80, CHR 0x89],
      [CHR 0xE2, CHR 0x80, CHR 0x8A], [CHR 0xE2, CHR 0x80, CHR 0xA8],
      [CHR 0xE2, CHR 0x80, CHR 0xA9], [CHR 0xE2, CHR 0x80, CHR 0xAF],
      [CHR 0xE2, CHR 0x81, CHR 0x9F], [CHR 0xE3, CHR 0x80, CHR 0x80]]"

text \<open>
  \<open>lstrip_with us\<close> removes from the front, as long as there is one, a non-empty
  string of \<open>us\<close>.
  The end of a string is the front of its reverse, where the encodings are reversed too.
\<close>

fun lstrip_with :: "string list \<Rightarrow> string \<Rightarrow> string" where
  "lstrip_with us [] = []"
| "lstrip_with us (c # cs) =
     (case find (\<lambda>u. u \<noteq> [] \<and> prefix u (c # cs)) us of
        None \<Rightarrow> c # cs
      | Some u \<Rightarrow> lstrip_with us (drop (length u - 1) cs))"

definition strip :: "string \<Rightarrow> string" where
  "strip s = rev (lstrip_with (map rev white_space) (rev (lstrip_with white_space s)))"

text \<open>
  \<^verbatim>\<open>s.replace(old, new)\<close> replaces every occurrence of \<open>old\<close>, scanning from the left
  and never overlapping. With an empty \<open>old\<close> Python puts \<open>new\<close> around every character.
\<close>

fun replace_scan :: "string \<Rightarrow> string \<Rightarrow> string \<Rightarrow> string" where
  "replace_scan old new [] = []"
| "replace_scan old new (c # cs) =
     (if take (length old) (c # cs) = old
      then new @ replace_scan old new (drop (length old - 1) cs)
      else c # replace_scan old new cs)"

definition str_replace :: "string \<Rightarrow> string \<Rightarrow> string \<Rightarrow> string" where
  "str_replace old new s =
     (if old = [] then new @ concat (map (\<lambda>c. c # new) s)
      else replace_scan old new s)"

text \<open>
  \<^verbatim>\<open>s.split(sep)\<close> cuts at every occurrence of a non-empty \<open>sep\<close>, from the left; the
  pieces may be empty and there is always at least one. \<open>cur\<close> holds the piece being
  read, reversed. The script only ever splits at \<^verbatim>\<open>', '\<close>; an empty separator, which
  Python rejects, cuts nowhere here.
\<close>

fun split_scan :: "string \<Rightarrow> string \<Rightarrow> string \<Rightarrow> string list" where
  "split_scan sep cur [] = [rev cur]"
| "split_scan sep cur (c # cs) =
     (if sep \<noteq> [] \<and> take (length sep) (c # cs) = sep
      then rev cur # split_scan sep [] (drop (length sep - 1) cs)
      else split_scan sep (c # cur) cs)"

definition str_split :: "string \<Rightarrow> string \<Rightarrow> string list" where
  "str_split sep s = split_scan sep [] s"

subsection \<open>Columns\<close>

definition fillna :: "string \<Rightarrow> string option \<Rightarrow> string option" where
  "fillna v c = (case c of None \<Rightarrow> Some v | Some x \<Rightarrow> Some x)"

definition dropna :: "'a option list \<Rightarrow> 'a list" where
  "dropna col = concat (map (\<lambda>c. case c of None \<Rightarrow> [] | Some x \<Rightarrow> [x]) col)"

text \<open>The distinct values of a column, in the order in which they first occur.\<close>

fun unique :: "'a list \<Rightarrow> 'a list" where
  "unique [] = []"
| "unique (x # xs) = x # unique (filter (\<lambda>y. y \<noteq> x) xs)"

text \<open>
  \<^verbatim>\<open>Series.value_counts()\<close>: nulls are left out, every distinct value gets the number of
  its occurrences, and the result is sorted by that number, largest first. The library
  fixes no order among values with the same count; here they stay in the order of their
  first occurrence, and no statement below depends on that choice.
\<close>

definition value_counts :: "'a option list \<Rightarrow> ('a \<times> nat) list" where
  "value_counts col =
     (let xs = dropna col
      in sort_key (\<lambda>(v, n). - int n) (map (\<lambda>v. (v, count_list xs v)) (unique xs)))"

definition head :: "nat \<Rightarrow> 'a list \<Rightarrow> 'a list" where
  "head n xs = take n xs"

text \<open>
  \<^verbatim>\<open>groupby(key).size()\<close>: rows with a null key belong to no group, the groups come in
  ascending order of the key.
\<close>

definition groupby_size :: "int option list \<Rightarrow> (int \<times> nat) list" where
  "groupby_size col =
     (let xs = dropna col in map (\<lambda>k. (k, count_list xs k)) (sort (unique xs)))"

text \<open>
  \<^verbatim>\<open>.str.split(sep, expand=True)\<close> makes one column per piece: a row with fewer pieces
  than the widest row is padded with nulls, and a null cell gives a row of nulls.
  \<^verbatim>\<open>.stack()\<close> then lists the non-null cells, row after row.
\<close>

definition str_split_expand :: "string \<Rightarrow> string option list \<Rightarrow> string option list list" where
  "str_split_expand sep col =
     (let parts = map (map_option (str_split sep)) col;
          w = foldr max (map length (dropna parts)) 0
      in map (\<lambda>p. case p of
                     None \<Rightarrow> replicate w None
                   | Some ps \<Rightarrow> map Some ps @ replicate (w - length ps) None) parts)"

definition stack :: "'a option list list \<Rightarrow> 'a list" where
  "stack table = concat (map dropna table)"

subsection \<open>Dates\<close>

definition month_name :: "month \<Rightarrow> string" where
  "month_name m =
     (case m of
        January \<Rightarrow> ''January'' | February \<Rightarrow> ''February'' | March \<Rightarrow> ''March''
      | April \<Rightarrow> ''April'' | May \<Rightarrow> ''May'' | June \<Rightarrow> ''June''
      | July \<Rightarrow> ''July'' | August \<Rightarrow> ''August'' | September \<Rightarrow> ''September''
      | October \<Rightarrow> ''October'' | November \<Rightarrow> ''November'' | December \<Rightarrow> ''December'')"

text \<open>
  The \<^verbatim>\<open>.str\<close> methods give a null for a cell that is not a string;
  \<^verbatim>\<open>pd.to_datetime(..., errors='coerce')\<close> gives a null where the parser \<open>p\<close> fails.
  The parser itself belongs to the library and is a parameter of the model.
\<close>

definition cell_strip :: "date_cell \<Rightarrow> date_cell" where
  "cell_strip c = (case c of Raw s \<Rightarrow> Raw (strip s) | _ \<Rightarrow> Null)"

definition cell_to_datetime :: "(string \<Rightarrow> timestamp option) \<Rightarrow> date_cell \<Rightarrow> date_cell" where
  "cell_to_datetime p c =
     (case c of
        Null \<Rightarrow> Null
      | Raw s \<Rightarrow> (case p s of None \<Rightarrow> Null | Some d \<Rightarrow> Stamp d)
      | Stamp d \<Rightarrow> Stamp d)"

definition dt_year :: "date_cell \<Rightarrow> int option" where
  "dt_year c = (case c of Stamp d \<Rightarrow> Some (year d) | _ \<Rightarrow> None)"

definition dt_month_name :: "date_cell \<Rightarrow> string option" where
  "dt_month_name c = (case c of Stamp d \<Rightarrow> Some (month_name (month d)) | _ \<Rightarrow> None)"

section \<open>Cleaning (lines 24 to 38 of \<^verbatim>\<open>load_and_clean_data\<close>)\<close>

text \<open>
  One definition per statement of the source, each a pass over the rows. The three
  \<^verbatim>\<open>fillna(..., inplace=True)\<close> calls act on a column selected from the frame and, by
  the assumption on the library, update the frame. Line 33 goes through the
  \<^verbatim>\<open>.str\<close> accessor, which raises when the date column is not an object column; the
  loader below makes that test where it reaches line 33.
\<close>

definition fill_director :: "row list \<Rightarrow> row list" where
  "fill_director df = map (\<lambda>r. r\<lparr>director := fillna ''Unknown'' (director r)\<rparr>) df"

definition fill_cast :: "row list \<Rightarrow> row list" where
  "fill_cast df = map (\<lambda>r. r\<lparr>cast := fillna ''Unknown'' (cast r)\<rparr>) df"

definition fill_country :: "row list \<Rightarrow> row list" where
  "fill_country df = map (\<lambda>r. r\<lparr>country := fillna ''Unknown'' (country r)\<rparr>) df"

definition dropna_subset :: "row list \<Rightarrow> row list" where
  "dropna_subset df = filter (\<lambda>r. date_added r \<noteq> Null \<and> rating r \<noteq> None) df"

definition strip_date_added :: "row list \<Rightarrow> row list" where
  "strip_date_added df = map (\<lambda>r. r\<lparr>date_added := cell_strip (date_added r)\<rparr>) df"

definition parse_date_added :: "(string \<Rightarrow> timestamp option) \<Rightarrow> row list \<Rightarrow> row list" where
  "parse_date_added p df = map (\<lambda>r. r\<lparr>date_added := cell_to_datetime p (date_added r)\<rparr>) df"

definition add_year_month :: "row list \<Rightarrow> cleaned_row list" where
  "add_year_month df =
     map (\<lambda>r. row.extend r
            (cleaned_row.fields (dt_year (date_added r)) (dt_month_name (date_added r)))) df"

definition clean_table :: "(string \<Rightarrow> timestamp option) \<Rightarrow> row list \<Rightarrow> cleaned_row list" where
  "clean_table p df =
     add_year_month (parse_date_added p (strip_date_added (dropna_subset
       (fill_country (fill_cast (fill_director df))))))"

text \<open>
  The frame that lines 24 to 38 leave when line 33 does not raise: the date column
  holds time stamps, the other columns keep the type the reader gave them.
\<close>

definition cleaned_frame :: "(string \<Rightarrow> timestamp option) \<Rightarrow> row frame \<Rightarrow> cleaned_row frame" where
  "cleaned_frame p df =
     \<lparr>rows = clean_table p (rows df),
      date_added_dtype = Datetime64,
      duration_dtype = duration_dtype df,
      listed_in_dtype = listed_in_dtype df\<rparr>"

section \<open>The derived views\<close>

text \<open>
  Each stage computes one value from the cleaned frame before it prints and plots.
  The values carry the names the source gives them. The genre table of line 74 and the
  durations of line 95 are computed through the \<^verbatim>\<open>.str\<close> accessor.
\<close>

definition type_counts :: "cleaned_row frame \<Rightarrow> (string \<times> nat) list" where
  "type_counts df = value_counts (map type (rows df))"

definition data_by_year :: "cleaned_row frame \<Rightarrow> (int \<times> nat) list" where
  "data_by_year df = groupby_size (map year_added (rows df))"

definition genres :: "cleaned_row frame \<Rightarrow> (string \<times> nat) list option" where
  "genres df =
     map_option (\<lambda>col. value_counts (map Some (stack (str_split_expand '', '' col))))
       (str_accessor (listed_in_dtype df) (map listed_in (rows df)))"

definition movies :: "cleaned_row frame \<Rightarrow> cleaned_row frame" where
  "movies df = df\<lparr>rows := filter (\<lambda>r. type r = Some ''Movie'') (rows df)\<rparr>"

text \<open>
  Lines 95, 96 and 99: the column \<^verbatim>\<open>duration_min\<close> first holds the duration with
  \<^verbatim>\<open>' min'\<close> replaced by nothing, then its numeric value, a null where the conversion
  \<open>tn\<close> fails or the duration is null; the histogram is drawn from the non-null values.
  The conversion is the library's \<^verbatim>\<open>pd.to_numeric\<close>, a parameter of the model.
\<close>

definition duration_min_text :: "cleaned_row frame \<Rightarrow> string option list option" where
  "duration_min_text ms =
     map_option (map (map_option (str_replace '' min'' [])))
       (str_accessor (duration_dtype ms) (map duration (rows ms)))"

definition to_numeric_coerce :: "(string \<Rightarrow> 'n option) \<Rightarrow> string option list \<Rightarrow> 'n option list" where
  "to_numeric_coerce tn col = map (\<lambda>c. case c of None \<Rightarrow> None | Some s \<Rightarrow> tn s) col"

definition duration_min :: "(string \<Rightarrow> 'n option) \<Rightarrow> cleaned_row frame \<Rightarrow> 'n list option" where
  "duration_min tn df =
     map_option (\<lambda>col. dropna (to_numeric_coerce tn col)) (duration_min_text (movies df))"

definition release_years :: "cleaned_row frame \<Rightarrow> (int \<times> nat) list" where
  "release_years df = head 10 (value_counts (map release_year (rows df)))"

section \<open>Printing, plotting and failure\<close>

text \<open>
  What the script prints and the image files it writes are the state of the model.
  An exception is a value with its message: \<^verbatim>\<open>FileNotFoundError\<close>,
  \<^verbatim>\<open>AttributeError\<close>, or any other exception. Reading the file and drawing a chart
  can raise, as the environment says; the \<^verbatim>\<open>.str\<close> accessor raises on a column
  that is not an object column. The environment also holds the two parsers and the
  message the library gives to the accessor's exception.
\<close>

datatype py_error = FileNotFoundError string | AttributeError string | OtherException string

datatype printed =
  Line string
  | NullCounts "(string \<times> nat) list"
  | Counts "(string \<times> nat) list"
  | YearCounts "(int \<times> nat) list"

text \<open>A chart is recorded as the plotting call with the data passed to it.\<close>

datatype 'n chart =
  CountPlot "string option list"
  | LinePlot "(int \<times> nat) list"
  | BarPlot "(string \<times> nat) list"
  | HistPlot "'n list"
  | CountPlotOrder "int option list" "int list"

record 'n world =
  stdout :: "printed list"
  files :: "(string \<times> 'n chart) list"

record 'n env =
  read_csv :: "string \<Rightarrow> py_error + row list"
  to_datetime :: "string \<Rightarrow> timestamp option"
  to_numeric :: "string \<Rightarrow> 'n option"
  savefig :: "string \<Rightarrow> py_error option"
  accessor_message :: string

type_synonym ('n, 'a) io = "'n world \<Rightarrow> (py_error + 'a) \<times> 'n world"

definition print :: "printed \<Rightarrow> ('n, unit) io" where
  "print x w = (Inr (), w\<lparr>stdout := stdout w @ [x]\<rparr>)"

definition then_do :: "('n, 'a) io \<Rightarrow> ('a \<Rightarrow> ('n, 'b) io) \<Rightarrow> ('n, 'b) io" where
  "then_do m f w = (case m w of (Inl e, w') \<Rightarrow> (Inl e, w') | (Inr x, w') \<Rightarrow> f x w')"

definition raise :: "py_error \<Rightarrow> ('n, 'a) io" where
  "raise e w = (Inl e, w)"

definition return :: "'a \<Rightarrow> ('n, 'a) io" where
  "return x w = (Inr x, w)"

text \<open>The value computed through the accessor, or the accessor's exception.\<close>

definition through_accessor :: "'n env \<Rightarrow> 'a option \<Rightarrow> ('n, 'a) io" where
  "through_accessor env v =
     (case v of None \<Rightarrow> raise (AttributeError (accessor_message env)) | Some x \<Rightarrow> return x)"

text \<open>
  The plotting calls of a stage, from \<^verbatim>\<open>plt.figure\<close> to \<^verbatim>\<open>plt.close\<close>: either they
  raise and no file is written, or the file is there.
\<close>

definition plot :: "'n env \<Rightarrow> 'n chart \<Rightarrow> string \<Rightarrow> ('n, unit) io" where
  "plot env c name w =
     (case savefig env name of
        Some e \<Rightarrow> (Inl e, w)
      | None \<Rightarrow> (Inr (), w\<lparr>files := files w @ [(name, c)]\<rparr>))"

definition newline :: string where
  "newline = [CHR 0x0A]"

text \<open>
  \<^verbatim>\<open>df.isnull().sum()\<close>, the number of nulls in each column; the columns the script
  never names are left out of the printed table.
\<close>

definition isnull_sum_raw :: "row list \<Rightarrow> (string \<times> nat) list" where
  "isnull_sum_raw df =
     [(''type'', length (filter (\<lambda>r. type r = None) df)),
      (''director'', length (filter (\<lambda>r. director r = None) df)),
      (''cast'', length (filter (\<lambda>r. cast r = None) df)),
      (''country'', length (filter (\<lambda>r. country r = None) df)),
      (''date_added'', length (filter (\<lambda>r. date_added r = Null) df)),
      (''release_year'', length (filter (\<lambda>r. release_year r = None) df)),
      (''rating'', length (filter (\<lambda>r. rating r = None) df)),
      (''duration'', length (filter (\<lambda>r. duration r = None) df)),
      (''listed_in'', length (filter (\<lambda>r. listed_in r = None) df))]"

definition isnull_sum :: "cleaned_row list \<Rightarrow> (string \<times> nat) list" where
  "isnull_sum df =
     isnull_sum_raw (map row.truncate df) @
     [(''year_added'', length (filter (\<lambda>r. year_added r = None) df)),
      (''month_added'', length (filter (\<lambda>r. month_added r = None) df))]"

section \<open>The stages\<close>

definition load_and_clean_data :: "'n env \<Rightarrow> string \<Rightarrow> ('n, cleaned_row frame) io" where
  "load_and_clean_data env filepath =
     then_do (print (Line (''Loading data from '' @ filepath @ ''...''))) (\<lambda>_.
     then_do (\<lambda>w. (read_csv env filepath, w)) (\<lambda>rs.
     then_do (print (Line (newline @ ''Missing values before cleaning:''))) (\<lambda>_.
     then_do (print (NullCounts (isnull_sum_raw rs))) (\<lambda>_.
     then_do (through_accessor env
                (str_accessor (date_added_dtype (read_frame rs))
                   (cleaned_frame (to_datetime env) (read_frame rs)))) (\<lambda>df.
     then_do (print (Line (newline @ ''Missing values after cleaning:''))) (\<lambda>_.
     then_do (print (NullCounts (isnull_sum (rows df)))) (\<lambda>_.
     return df)))))))"

definition analyze_movies_vs_tv_shows :: "'n env \<Rightarrow> cleaned_row frame \<Rightarrow> ('n, unit) io" where
  "analyze_movies_vs_tv_shows env df =
     then_do (print (Line (newline @ ''--- Movies vs TV Shows ---''))) (\<lambda>_.
     then_do (print (Counts (type_counts df))) (\<lambda>_.
     plot env (CountPlot (map type (rows df))) ''distribution_type.png''))"

definition analyze_content_growth :: "'n env \<Rightarrow> cleaned_row frame \<Rightarrow> ('n, unit) io" where
  "analyze_content_growth env df =
     then_do (print (Line (newline @ ''--- Content Growth Over Time ---''))) (\<lambda>_.
     plot env (LinePlot (data_by_year df)) ''content_growth.png'')"

definition identify_top_genres :: "'n env \<Rightarrow> cleaned_row frame \<Rightarrow> ('n, unit) io" where
  "identify_top_genres env df =
     then_do (print (Line (newline @ ''--- Top Genres ---''))) (\<lambda>_.
     then_do (through_accessor env (genres df)) (\<lambda>g.
     then_do (print (Line ''Top 10 Genres:'')) (\<lambda>_.
     then_do (print (Counts (head 10 g))) (\<lambda>_.
     plot env (BarPlot (head 10 g)) ''top_genres.png''))))"

definition analyze_runtime :: "'n env \<Rightarrow> cleaned_row frame \<Rightarrow> ('n, unit) io" where
  "analyze_runtime env df =
     then_do (print (Line (newline @ ''--- Runtime Analysis ---''))) (\<lambda>_.
     then_do (through_accessor env (duration_min (to_numeric env) df)) (\<lambda>d.
     plot env (HistPlot d) ''movie_duration_dist.png''))"

definition analyze_release_years :: "'n env \<Rightarrow> cleaned_row frame \<Rightarrow> ('n, unit) io" where
  "analyze_release_years env df =
     then_do (print (Line (newline @ ''--- Top Release Years ---''))) (\<lambda>_.
     then_do (print (YearCounts (release_years df))) (\<lambda>_.
     plot env (CountPlotOrder (map release_year (rows df)) (map fst (release_years df)))
       ''top_release_years.png''))"

definition filepath :: string where
  "filepath =
     ''c:'' @ [CHR 0x5C] @ ''Users'' @ [CHR 0x5C] @ ''gkgan'' @ [CHR 0x5C] @ ''Downloads''
     @ [CHR 0x5C] @ ''netflix'' @ [CHR 0x5C] @ ''netflix_titles.csv''"

text \<open>The body of the \<^verbatim>\<open>try\<close> block, then \<^verbatim>\<open>main\<close> with its two handlers.\<close>

definition main_body :: "'n env \<Rightarrow> ('n, unit) io" where
  "main_body env =
     then_do (load_and_clean_data env filepath) (\<lambda>df.
     then_do (analyze_movies_vs_tv_shows env df) (\<lambda>_.
     then_do (analyze_content_growth env df) (\<lambda>_.
     then_do (identify_top_genres env df) (\<lambda>_.
     then_do (analyze_runtime env df) (\<lambda>_.
     then_do (analyze_release_years env df) (\<lambda>_.
     print (Line (newline @ ''Analysis complete. Plots saved as PNG files.''))))))))"

definition main :: "'n env \<Rightarrow> 'n world \<Rightarrow> 'n world" where
  "main env w =
     (case main_body env w of
        (Inr _, w') \<Rightarrow> w'
      | (Inl (FileNotFoundError _), w') \<Rightarrow>
          snd (print (Line (''Error: File not found at '' @ filepath)) w')
      | (Inl (AttributeError e), w') \<Rightarrow>
          snd (print (Line (''An error occurred: '' @ e)) w')
      | (Inl (OtherException e), w') \<Rightarrow>
          snd (print (Line (''An error occurred: '' @ e)) w'))"

section \<open>The claim's wording of the duration parse\<close>

text \<open>
  The specification describes line 95 as stripping a trailing unit suffix. This second
  definition follows those words, to be compared with \<open>duration_min\<close> above.
\<close>

definition strip_min_suffix :: "string \<Rightarrow> string" where
  "strip_min_suffix s =
     (if length '' min'' \<le> length s \<and> drop (length s - length '' min'') s = '' min''
      then take (length s - length '' min'') s else s)"

definition duration_min_by_suffix :: "(string \<Rightarrow> 'n option) \<Rightarrow> cleaned_row frame \<Rightarrow> 'n list option" where
  "duration_min_by_suffix tn df =
     map_option (\<lambda>col. dropna (to_numeric_coerce tn (map (map_option strip_min_suffix) col)))
       (str_accessor (duration_dtype (movies df)) (map duration (rows (movies df))))"

text \<open>The count a table of counts gives to one value, zero when the value is absent.\<close>

definition count_of :: "('a \<times> nat) list \<Rightarrow> 'a \<Rightarrow> nat" where
  "count_of cs v = (case map_of cs v of None \<Rightarrow> 0 | Some n \<Rightarrow> n)"

section \<open>A sample environment\<close>

text \<open>
  The examples below run the model on concrete tables. They need concrete parsers:
  decimal numerals for \<^verbatim>\<open>pd.to_numeric\<close>, and dates written as in the catalogue,
  \<^verbatim>\<open>September 25, 2021\<close>, for \<^verbatim>\<open>pd.to_datetime\<close>. The library accepts more than
  these two do; the general theorems hold for every parser.
\<close>

definition digit_of :: "char \<Rightarrow> nat option" where
  "digit_of c =
     (let front = takeWhile (\<lambda>d. d \<noteq> c) ''0123456789''
      in if length front < 10 then Some (length front) else None)"

fun digits_value :: "nat \<Rightarrow> string \<Rightarrow> nat option" where
  "digits_value acc [] = Some acc"
| "digits_value acc (c # cs) =
     (case digit_of c of None \<Rightarrow> None | Some d \<Rightarrow> digits_value (10 * acc + d) cs)"

definition decimal :: "string \<Rightarrow> nat option" where
  "decimal s = (if s = [] then None else digits_value 0 s)"

definition sample_to_numeric :: "string \<Rightarrow> int option" where
  "sample_to_numeric s = map_option int (decimal s)"

definition month_of_name :: "string \<Rightarrow> month option" where
  "month_of_name s =
     map_of (map (\<lambda>m. (month_name m, m))
       [January, February, March, April, May, June,
        July, August, September, October, November, December]) s"

definition sample_to_datetime :: "string \<Rightarrow> timestamp option" where
  "sample_to_datetime s =
     (case str_split '' '' s of
        [m, d, y] \<Rightarrow>
          (if d \<noteq> [] \<and> last d = CHR '',''
           then (case (month_of_name m, decimal (butlast d), decimal y) of
                   (Some mo, Some dd, Some yy) \<Rightarrow>
                     Some \<lparr>year = int yy, month = mo, day = dd\<rparr>
                 | _ \<Rightarrow> None)
           else None)
      | _ \<Rightarrow> None)"

text \<open>
  In the sample environment the configured path holds the given rows, any other path
  is missing, and drawing fails (with the given exception) for the listed file names.
\<close>

definition sample_env :: "row list \<Rightarrow> (string \<times> py_error) list \<Rightarrow> int env" where
  "sample_env rs failing =
     \<lparr>read_csv = (\<lambda>f. if f = filepath then Inr rs else Inl (FileNotFoundError f)),
      to_datetime = sample_to_datetime,
      to_numeric = sample_to_numeric,
      savefig = map_of failing,
      accessor_message = ''Can only use .str accessor with string values!''\<rparr>"

definition missing_env :: "int env" where
  "missing_env =
     \<lparr>read_csv = (\<lambda>f. Inl (FileNotFoundError f)),
      to_datetime = sample_to_datetime,
      to_numeric = sample_to_numeric,
      savefig = (\<lambda>_. None),
      accessor_message = ''Can only use .str accessor with string values!''\<rparr>"

definition empty_world :: "int world" where
  "empty_world = \<lparr>stdout = [], files = []\<rparr>"

definition sample_row ::
  "string option \<Rightarrow> string \<Rightarrow> int \<Rightarrow> string option \<Rightarrow> string option \<Rightarrow> string option \<Rightarrow> row" where
  "sample_row ty date yr rat dur gen =
     \<lparr>type = ty, director = None, cast = Some ''Ama Qamata'', country = None,
      date_added = Raw date, release_year = Some yr, rating = rat, duration = dur,
      listed_in = gen, other_columns = [(''title'', Some ''Blood and Water'')]\<rparr>"

text \<open>
  What lines 24 to 38 do to one record that is kept, for the statements about the
  cleaned table.
\<close>

definition clean_row :: "(string \<Rightarrow> timestamp option) \<Rightarrow> row \<Rightarrow> cleaned_row" where
  "clean_row p r =
     row.extend
       (r\<lparr>director := fillna ''Unknown'' (director r),
          cast := fillna ''Unknown'' (cast r),
          country := fillna ''Unknown'' (country r),
          date_added := cell_to_datetime p (cell_strip (date_added r))\<rparr>)
       (cleaned_row.fields
          (dt_year (cell_to_datetime p (cell_strip (date_added r))))
          (dt_month_name (cell_to_datetime p (cell_strip (date_added r)))))"

text \<open>
  A sample input: a film with a padded date, a series whose date does not parse and
  whose genre is missing, and a film without a rating.
\<close>

definition catalogue_rows :: "row list" where
  "catalogue_rows =
     [sample_row (Some ''Movie'') '' September 25, 2021'' 2020 (Some ''PG-13'')
        (Some ''90 min'') (Some ''Comedy, Drama''),
      sample_row (Some ''TV Show'') ''not a date'' 2021 (Some ''TV-MA'')
        (Some ''2 Seasons'') None,
      sample_row None ''July 1, 2019'' 2021 None (Some ''45 min'') (Some ''Dramas'')]"

text \<open>Further sample inputs, one for each stage.\<close>

definition untyped_rows :: "row list" where
  "untyped_rows =
     [sample_row (Some ''Movie'') ''September 25, 2021'' 2020 (Some ''PG-13'')
        (Some ''90 min'') (Some ''Comedy, Drama''),
      sample_row None ''July 1, 2019'' 2019 (Some ''TV-MA'') (Some ''45 min'')
        (Some ''Dramas'')]"

definition growth_rows :: "row list" where
  "growth_rows =
     [sample_row (Some ''Movie'') ''September 25, 2021'' 2020 (Some ''PG-13'')
        (Some ''90 min'') (Some ''Comedy, Drama''),
      sample_row (Some ''Movie'') ''July 1, 2019'' 2019 (Some ''TV-MA'') (Some ''45 min'')
        (Some ''Dramas''),
      sample_row (Some ''TV Show'') ''not a date'' 2021 (Some ''TV-MA'')
        (Some ''2 Seasons'') (Some ''Kids' TV''),
      sample_row (Some ''TV Show'') ''January 1, 2021'' 2021 (Some ''TV-14'')
        (Some ''1 Season'') (Some ''Kids' TV'')]"

definition year_tally :: "(int \<times> nat) list" where
  "year_tally =
     [(2020, 5), (2019, 3), (2018, 8), (2017, 7), (2016, 6), (2015, 4),
      (2014, 9), (2013, 10), (2012, 11), (2011, 12), (2010, 1), (2009, 2)]"

definition year_rows :: "row list" where
  "year_rows =
     map (\<lambda>y. sample_row (Some ''Movie'') ''July 1, 2019'' y (Some ''PG'') (Some ''90 min'')
                (Some ''Dramas''))
       (concat (map (\<lambda>(y, k). replicate k y) year_tally))"

definition no_genre_rows :: "row list" where
  "no_genre_rows =
     [sample_row (Some ''Movie'') ''September 25, 2021'' 2020 (Some ''PG-13'')
        (Some ''90 min'') (Some ''Dramas''),
      sample_row (Some ''TV Show'') ''July 1, 2019'' 2019 (Some ''TV-MA'') (Some ''1 Season'')
        None]"

definition odd_duration_rows :: "row list" where
  "odd_duration_rows =
     [sample_row (Some ''Movie'') ''September 25, 2021'' 2020 (Some ''PG-13'')
        (Some ''90 min'') (Some ''Dramas''),
      sample_row (Some ''Movie'') ''July 1, 2019'' 2019 (Some ''TV-MA'') (Some ''1 min5'')
        (Some ''Dramas'')]"

definition runtime_rows :: "row list" where
  "runtime_rows =
     [sample_row (Some ''Movie'') ''September 25, 2021'' 2020 (Some ''PG-13'')
        (Some ''90 min'') (Some ''Dramas''),
      sample_row (Some ''Movie'') ''July 1, 2019'' 2019 (Some ''TV-MA'') (Some ''45 min'')
        (Some ''Dramas''),
      sample_row (Some ''Movie'') ''July 2, 2019'' 2019 (Some ''TV-MA'') None
        (Some ''Dramas''),
      sample_row (Some ''TV Show'') ''July 3, 2019'' 2019 (Some ''TV-MA'') (Some ''2 Seasons'')
        (Some ''Kids' TV'')]"

definition movie_rows :: "row list" where
  "movie_rows =
     [sample_row (Some ''Movie'') ''September 25, 2021'' 2020 (Some ''PG-13'')
        (Some ''90 min'') (Some ''Dramas''),
      sample_row (Some ''Movie'') ''July 1, 2019'' 2019 (Some ''TV-MA'') (Some ''45 min'')
        (Some ''Dramas'')]"

text \<open>The frame the loader returns in the sample environment when line 33 does not raise.\<close>

definition sample_cleaned :: "row list \<Rightarrow> cleaned_row frame" where
  "sample_cleaned rs = cleaned_frame sample_to_datetime (read_frame rs)"

text \<open>
  The genres one record lists, their counts over a list of records, and the image
  files in the order of the stages.
\<close>

definition listed_genres :: "cleaned_row \<Rightarrow> string list" where
  "listed_genres r = (case listed_in r of None \<Rightarrow> [] | Some s \<Rightarrow> str_split '', '' s)"

definition genre_table :: "cleaned_row list \<Rightarrow> (string \<times> nat) list" where
  "genre_table rs = value_counts (map Some (concat (map listed_genres rs)))"

definition stage_files :: "string list" where
  "stage_files =
     [''distribution_type.png'', ''content_growth.png'', ''top_genres.png'',
      ''movie_duration_dist.png'', ''top_release_years.png'']"

text \<open>
  The exception, if any, that the stage writing the given file raises on the frame
  cleaned from the given records: the accessor's exception in the two stages that go
  through the accessor, or else the exception of the plotting calls.
\<close>

definition stage_error :: "'n env \<Rightarrow> row list \<Rightarrow> string \<Rightarrow> py_error option" where
  "stage_error env rs name =
     (if name = ''top_genres.png'' \<and> listed_in_dtype (read_frame rs) \<noteq> Object
        \<or> name = ''movie_duration_dist.png'' \<and> duration_dtype (read_frame rs) \<noteq> Object
      then Some (AttributeError (accessor_message env))
      else savefig env name)"

text \<open>
  Sample inputs on which the accessor raises: a record without a date, and two
  records without a genre, the first of them without a duration.
\<close>

definition undated_rows :: "row list" where
  "undated_rows =
     [(sample_row (Some ''Movie'') [] 2020 (Some ''PG-13'') (Some ''90 min'')
         (Some ''Dramas''))\<lparr>date_added := Null\<rparr>]"

definition genreless_rows :: "row list" where
  "genreless_rows =
     [sample_row (Some ''TV Show'') ''September 25, 2021'' 2020 (Some ''PG-13'') None None,
      sample_row (Some ''Movie'') ''July 1, 2019'' 2019 (Some ''TV-MA'') (Some ''45 min'')
        None]"

definition durationless_rows :: "row list" where
  "durationless_rows =
     [sample_row (Some ''Movie'') ''September 25, 2021'' 2020 (Some ''PG-13'') None
        (Some ''Dramas'')]"

text \<open>A date padded with a no-break space (U+00A0) in front and a blank behind.\<close>

definition padded_rows :: "row list" where
  "padded_rows =
     [sample_row (Some ''Movie'') ([CHR 0xC2, CHR 0xA0] @ ''September 25, 2021 '') 2020
        (Some ''PG-13'') (Some ''90 min'') (Some ''Dramas'')]"

section \<open>Properties of the library operations\<close>

lemma dropna_Nil [simp]: "dropna [] = []"
  by (simp add: dropna_def)

lemma dropna_Cons_None [simp]: "dropna (None # col) = dropna col"
  by (simp add: dropna_def)

lemma dropna_Cons_Some [simp]: "dropna (Some x # col) = x # dropna col"
  by (simp add: dropna_def)

lemma dropna_append [simp]: "dropna (xs @ ys) = dropna xs @ dropna ys"
  by (simp add: dropna_def)

lemma dropna_map_Some [simp]: "dropna (map Some xs) = xs"
  by (induction xs) simp_all

lemma dropna_replicate_None [simp]: "dropna (replicate n None) = []"
  by (induction n) simp_all

lemma set_dropna: "set (dropna col) = {x. Some x \<in> set col}"
proof (induction col)
  case Nil
  show ?case by simp
next
  case (Cons c col)
  then show ?case by (cases c) auto
qed

lemma length_dropna: "length (dropna col) = length (filter (\<lambda>c. c \<noteq> None) col)"
proof (induction col)
  case Nil
  show ?case by simp
next
  case (Cons c col)
  then show ?case by (cases c) simp_all
qed

lemma dropna_map: "dropna (map f xs) = dropna (map f (filter (\<lambda>x. f x \<noteq> None) xs))"
proof (induction xs)
  case Nil
  show ?case by simp
next
  case (Cons x xs)
  then show ?case by (cases "f x") simp_all
qed

lemma count_list_dropna:
  "count_list (dropna col) v = length (filter (\<lambda>c. c = Some v) col)"
proof (induction col)
  case Nil
  show ?case by simp
next
  case (Cons c col)
  then show ?case by (cases c) simp_all
qed

lemma set_unique [simp]: "set (unique xs) = set xs"
  by (induction xs rule: unique.induct) auto

lemma distinct_unique [simp]: "distinct (unique xs)"
  by (induction xs rule: unique.induct) auto

lemma sum_list_insort_key:
  "sum_list (map f (insort_key k x xs)) = f x + sum_list (map f xs)"
  for f :: "'a \<Rightarrow> nat"
  by (induction xs) simp_all

lemma sum_list_sort_key:
  "sum_list (map f (sort_key k xs)) = sum_list (map f xs)"
  for f :: "'a \<Rightarrow> nat"
  by (induction xs) (simp_all add: sum_list_insort_key)

lemma sum_count_unique: "sum_list (map (count_list xs) (unique xs)) = length xs"
proof -
  have "sum_list (map (count_list xs) (unique xs)) = sum (count_list xs) (set (unique xs))"
    by (rule sum_list_distinct_conv_sum_set) simp
  also have "\<dots> = length xs"
    by (simp add: sum_count_set)
  finally show ?thesis .
qed

lemma sum_value_counts: "sum_list (map snd (value_counts col)) = length (dropna col)"
  by (simp add: value_counts_def Let_def sum_list_sort_key comp_def sum_count_unique)

lemma set_value_counts:
  "set (value_counts col) = (\<lambda>v. (v, count_list (dropna col) v)) ` set (dropna col)"
  by (simp add: value_counts_def Let_def)

lemma distinct_map_insort_key:
  "distinct (map f (insort_key k x xs)) \<longleftrightarrow> f x \<notin> f ` set xs \<and> distinct (map f xs)"
  by (induction xs) (auto simp: set_insort_key)

lemma distinct_map_sort_key:
  "distinct (map f (sort_key k xs)) \<longleftrightarrow> distinct (map f xs)"
  by (induction xs) (simp_all add: distinct_map_insort_key)

lemma distinct_fst_value_counts: "distinct (map fst (value_counts col))"
  by (simp add: value_counts_def Let_def distinct_map_sort_key comp_def)

lemma sorted_value_counts: "sorted (map (\<lambda>(v, n). - int n) (value_counts col))"
  by (simp add: value_counts_def Let_def sorted_sort_key)

lemma map_of_value_counts:
  "map_of (value_counts col) v =
     (if Some v \<in> set col then Some (count_list (dropna col) v) else None)"
proof (cases "Some v \<in> set col")
  case True
  then have "(v, count_list (dropna col) v) \<in> set (value_counts col)"
    by (simp add: set_value_counts set_dropna)
  then show ?thesis
    using True by (simp add: distinct_fst_value_counts)
next
  case False
  then have "v \<notin> fst ` set (value_counts col)"
    by (auto simp: set_value_counts set_dropna)
  then show ?thesis
    using False by (simp add: map_of_eq_None_iff)
qed

lemma lstrip_with_parts: "\<exists>vs. set vs \<subseteq> set us \<and> s = concat vs @ lstrip_with us s"
proof (induction us s rule: lstrip_with.induct)
  case (1 us)
  have "set [] \<subseteq> set us \<and> [] = concat [] @ lstrip_with us []" by simp
  then show ?case by blast
next
  case (2 us c cs)
  show ?case
  proof (cases "find (\<lambda>u. u \<noteq> [] \<and> prefix u (c # cs)) us")
    case None
    then have "set [] \<subseteq> set us \<and> c # cs = concat [] @ lstrip_with us (c # cs)" by simp
    then show ?thesis by blast
  next
    case (Some u)
    then have u: "u \<in> set us" "u \<noteq> []" "prefix u (c # cs)"
      by (auto simp: find_Some_iff)
    from u(3) obtain t where t: "c # cs = u @ t" by (auto simp: prefix_def)
    with u(2) have "t = drop (length u - 1) cs"
      by (cases u) auto
    then have tt: "t = drop (length u - 1) cs" .
    have "lstrip_with us (c # cs) = lstrip_with us (drop (length u - 1) cs)"
      using Some by simp
    then have l: "lstrip_with us (c # cs) = lstrip_with us t"
      by (simp only: tt)
    from 2 [OF Some] tt
    obtain vs where vs: "set vs \<subseteq> set us" "t = concat vs @ lstrip_with us t"
      by auto
    have "set (u # vs) \<subseteq> set us \<and> c # cs = concat (u # vs) @ lstrip_with us (c # cs)"
      using u(1) vs t l by simp
    then show ?thesis by blast
  qed
qed

lemma lstrip_with_no_prefix:
  "u \<in> set us \<Longrightarrow> u \<noteq> [] \<Longrightarrow> \<not> prefix u (lstrip_with us s)"
proof (induction us s rule: lstrip_with.induct)
  case (1 us)
  then show ?case by simp
next
  case (2 us c cs)
  show ?case
  proof (cases "find (\<lambda>u. u \<noteq> [] \<and> prefix u (c # cs)) us")
    case None
    then have "\<not> prefix u (c # cs)"
      using 2(2,3) by (auto simp: find_None_iff)
    with None show ?thesis by simp
  next
    case (Some v)
    with 2 show ?thesis by simp
  qed
qed

lemma white_space_not_Nil: "[] \<notin> set white_space"
  by (simp add: white_space_def)

lemma strip_parts:
  "\<exists>as bs. set as \<subseteq> set white_space \<and> set bs \<subseteq> set white_space \<and>
     s = concat as @ strip s @ concat bs"
proof -
  let ?l = "lstrip_with white_space s"
  obtain as where as: "set as \<subseteq> set white_space" "s = concat as @ ?l"
    using lstrip_with_parts by blast
  obtain vs where vs: "set vs \<subseteq> set (map rev white_space)"
    "rev ?l = concat vs @ lstrip_with (map rev white_space) (rev ?l)"
    using lstrip_with_parts by blast
  have "rev (rev ?l) = rev (concat vs @ lstrip_with (map rev white_space) (rev ?l))"
    using vs(2) by simp
  then have "?l = strip s @ rev (concat vs)"
    by (simp add: strip_def)
  then have l: "?l = strip s @ concat (map rev (rev vs))"
    by (simp add: rev_concat)
  have "set (map rev (rev vs)) \<subseteq> set white_space"
    using vs(1) by auto
  with as l show ?thesis by metis
qed

lemma strip_ends:
  assumes "u \<in> set white_space"
  shows "\<not> prefix u (strip s) \<and> \<not> suffix u (strip s)"
proof -
  let ?l = "lstrip_with white_space s"
  have ne: "u \<noteq> []" using assms white_space_not_Nil by auto
  have l: "\<not> prefix u ?l"
    using assms ne by (rule lstrip_with_no_prefix)
  obtain vs where "rev ?l = concat vs @ lstrip_with (map rev white_space) (rev ?l)"
    using lstrip_with_parts by blast
  then have "rev (rev ?l) = rev (concat vs @ lstrip_with (map rev white_space) (rev ?l))"
    by simp
  then have "?l = strip s @ rev (concat vs)"
    by (simp add: strip_def)
  then have "prefix (strip s) ?l"
    by (metis prefixI)
  with l have 1: "\<not> prefix u (strip s)"
    using prefix_order.trans by blast
  have "rev u \<in> set (map rev white_space)" "rev u \<noteq> []"
    using assms ne by simp_all
  then have "\<not> prefix (rev u) (lstrip_with (map rev white_space) (rev ?l))"
    by (rule lstrip_with_no_prefix)
  then have 2: "\<not> suffix u (strip s)"
    by (simp add: strip_def suffix_to_prefix)
  from 1 2 show ?thesis by simp
qed

section \<open>The cleaned table\<close>

lemma kept_fill:
  "dropna_subset (fill_country (fill_cast (fill_director df))) =
     fill_country (fill_cast (fill_director (dropna_subset df)))"
  by (induction df)
    (simp_all add: dropna_subset_def fill_country_def fill_cast_def fill_director_def)

lemma clean_table_rows: "clean_table p df = map (clean_row p) (dropna_subset df)"
  unfolding clean_table_def kept_fill
  by (simp add: add_year_month_def parse_date_added_def strip_date_added_def
      fill_country_def fill_cast_def fill_director_def clean_row_def)

lemma clean_row_sel [simp]:
  "type (clean_row p r) = type r"
  "director (clean_row p r) = fillna ''Unknown'' (director r)"
  "cast (clean_row p r) = fillna ''Unknown'' (cast r)"
  "country (clean_row p r) = fillna ''Unknown'' (country r)"
  "date_added (clean_row p r) = cell_to_datetime p (cell_strip (date_added r))"
  "release_year (clean_row p r) = release_year r"
  "rating (clean_row p r) = rating r"
  "duration (clean_row p r) = duration r"
  "listed_in (clean_row p r) = listed_in r"
  "other_columns (clean_row p r) = other_columns r"
  "year_added (clean_row p r) = dt_year (cell_to_datetime p (cell_strip (date_added r)))"
  "month_added (clean_row p r) = dt_month_name (cell_to_datetime p (cell_strip (date_added r)))"
  by (simp_all add: clean_row_def row.defs cleaned_row.defs)

lemma inferred_dtype_Object:
  "inferred_dtype isnull col = Object \<longleftrightarrow> col = [] \<or> (\<exists>c \<in> set col. \<not> isnull c)"
  by (auto simp: inferred_dtype_def)

lemma read_frame_sel [simp]:
  "rows (read_frame rs) = rs"
  "date_added_dtype (read_frame rs) = Object \<longleftrightarrow> rs = [] \<or> (\<exists>r \<in> set rs. date_added r \<noteq> Null)"
  "duration_dtype (read_frame rs) = Object \<longleftrightarrow> rs = [] \<or> (\<exists>r \<in> set rs. duration r \<noteq> None)"
  "listed_in_dtype (read_frame rs) = Object \<longleftrightarrow> rs = [] \<or> (\<exists>r \<in> set rs. listed_in r \<noteq> None)"
  by (auto simp: read_frame_def inferred_dtype_Object)

lemma cleaned_frame_sel [simp]:
  "rows (cleaned_frame p df) = clean_table p (rows df)"
  "date_added_dtype (cleaned_frame p df) = Datetime64"
  "duration_dtype (cleaned_frame p df) = duration_dtype df"
  "listed_in_dtype (cleaned_frame p df) = listed_in_dtype df"
  by (simp_all add: cleaned_frame_def)

lemma load_ok:
  assumes "read_csv env fp = Inr raw"
    and "raw = [] \<or> (\<exists>r \<in> set raw. date_added r \<noteq> Null)"
  shows "load_and_clean_data env fp w =
    (Inr (cleaned_frame (to_datetime env) (read_frame raw)),
     w\<lparr>stdout := stdout w @
        [Line (''Loading data from '' @ fp @ ''...''),
         Line (newline @ ''Missing values before cleaning:''),
         NullCounts (isnull_sum_raw raw),
         Line (newline @ ''Missing values after cleaning:''),
         NullCounts (isnull_sum (clean_table (to_datetime env) raw))]\<rparr>)"
proof -
  have "date_added_dtype (read_frame raw) = Object"
    using assms(2) by simp
  then show ?thesis
    using assms(1)
    by (simp add: load_and_clean_data_def then_do_def print_def through_accessor_def
        str_accessor_def return_def)
qed

lemma load_raises:
  assumes "read_csv env fp = Inr raw"
    and "raw \<noteq> []" and "\<forall>r \<in> set raw. date_added r = Null"
  shows "load_and_clean_data env fp w =
    (Inl (AttributeError (accessor_message env)),
     w\<lparr>stdout := stdout w @
        [Line (''Loading data from '' @ fp @ ''...''),
         Line (newline @ ''Missing values before cleaning:''),
         NullCounts (isnull_sum_raw raw)]\<rparr>)"
proof -
  have "date_added_dtype (read_frame raw) \<noteq> Object"
    using assms(2,3) by simp
  then show ?thesis
    using assms(1)
    by (simp add: load_and_clean_data_def then_do_def print_def through_accessor_def
        str_accessor_def raise_def)
qed

lemma load_fail:
  assumes "read_csv env fp = Inl e"
  shows "load_and_clean_data env fp w =
    (Inl e, w\<lparr>stdout := stdout w @ [Line (''Loading data from '' @ fp @ ''...'')]\<rparr>)"
  using assms by (simp add: load_and_clean_data_def then_do_def print_def)

lemma fillna_not_None [simp]: "fillna v c \<noteq> None"
  by (simp add: fillna_def split: option.split)

lemma sample_env_sel [simp]:
  "read_csv (sample_env rs failing) filepath = Inr rs"
  "to_datetime (sample_env rs failing) = sample_to_datetime"
  "to_numeric (sample_env rs failing) = sample_to_numeric"
  "savefig (sample_env rs failing) = map_of failing"
  "accessor_message (sample_env rs failing) = ''Can only use .str accessor with string values!''"
  by (simp_all add: sample_env_def)

lemma load_sample:
  assumes "rs = [] \<or> (\<exists>r \<in> set rs. date_added r \<noteq> Null)"
  shows "load_and_clean_data (sample_env rs failing) filepath w =
    (Inr (cleaned_frame sample_to_datetime (read_frame rs)),
     w\<lparr>stdout := stdout w @
        [Line (''Loading data from '' @ filepath @ ''...''),
         Line (newline @ ''Missing values before cleaning:''),
         NullCounts (isnull_sum_raw rs),
         Line (newline @ ''Missing values after cleaning:''),
         NullCounts (isnull_sum (clean_table sample_to_datetime rs))]\<rparr>)"
  using load_ok [of "sample_env rs failing" filepath rs w] assms by simp

lemma catalogue_dated: "\<exists>r \<in> set catalogue_rows. date_added r \<noteq> Null"
  by (simp add: catalogue_rows_def sample_row_def)

lemma undated: "undated_rows \<noteq> [] \<and> (\<forall>r \<in> set undated_rows. date_added r = Null)"
  by (simp add: undated_rows_def)

lemma catalogue_cleaned:
  "clean_table sample_to_datetime catalogue_rows =
     [\<lparr>type = Some ''Movie'', director = Some ''Unknown'', cast = Some ''Ama Qamata'',
       country = Some ''Unknown'',
       date_added = Stamp \<lparr>year = 2021, month = September, day = 25\<rparr>,
       release_year = Some 2020, rating = Some ''PG-13'', duration = Some ''90 min'',
       listed_in = Some ''Comedy, Drama'',
       other_columns = [(''title'', Some ''Blood and Water'')],
       year_added = Some 2021, month_added = Some ''September''\<rparr>,
      \<lparr>type = Some ''TV Show'', director = Some ''Unknown'', cast = Some ''Ama Qamata'',
       country = Some ''Unknown'', date_added = Null,
       release_year = Some 2021, rating = Some ''TV-MA'', duration = Some ''2 Seasons'',
       listed_in = None,
       other_columns = [(''title'', Some ''Blood and Water'')],
       year_added = None, month_added = None\<rparr>]"
  by code_simp

lemma padded_cleaned:
  "map date_added (clean_table sample_to_datetime padded_rows) =
     [Stamp \<lparr>year = 2021, month = September, day = 25\<rparr>]"
  by code_simp

text \<open>
  Claim C2. Stripping removes white space characters, and nothing else, from both ends
  until there is none left at either end. When the file can be read and its date column
  is an object column (the file has no record, or some record has a date), the loader
  returns a frame, with one record for every input record that has a date and a
  rating, whether or not the date parses. For each of them the date is the parse of the
  stripped text, a null where the parser fails; \<open>year_added\<close> is the year of that
  date and \<open>month_added\<close> the name of its month, and each of the two is null exactly
  when the date is null. When the file has records and none has a date, line 33 raises
  and there is no cleaned table.
\<close>

theorem date_parse_and_derived_fields:
  assumes "read_csv env fp = Inr raw"
  shows "(\<forall>s. (\<exists>as bs. set as \<subseteq> set white_space \<and> set bs \<subseteq> set white_space \<and>
                 s = concat as @ strip s @ concat bs) \<and>
              (\<forall>u \<in> set white_space. \<not> prefix u (strip s) \<and> \<not> suffix u (strip s))) \<and>
    (raw \<noteq> [] \<and> (\<forall>r \<in> set raw. date_added r = Null) \<longrightarrow>
       fst (load_and_clean_data env fp w) = Inl (AttributeError (accessor_message env))) \<and>
    (raw = [] \<or> (\<exists>r \<in> set raw. date_added r \<noteq> Null) \<longrightarrow>
      (\<exists>df w'. load_and_clean_data env fp w = (Inr df, w') \<and>
        length (rows df) =
          length (filter (\<lambda>r. date_added r \<noteq> Null \<and> rating r \<noteq> None) raw) \<and>
        (\<forall>i < length (rows df).
           (\<forall>s. date_added (filter (\<lambda>r. date_added r \<noteq> Null \<and> rating r \<noteq> None) raw ! i)
                  = Raw s \<longrightarrow>
              date_added (rows df ! i) =
                (case to_datetime env (strip s) of None \<Rightarrow> Null | Some d \<Rightarrow> Stamp d)) \<and>
           (\<forall>d. date_added (rows df ! i) = Stamp d \<longrightarrow>
              year_added (rows df ! i) = Some (year d) \<and>
              month_added (rows df ! i) = Some (month_name (month d))) \<and>
           (year_added (rows df ! i) = None \<longleftrightarrow> date_added (rows df ! i) = Null) \<and>
           (month_added (rows df ! i) = None \<longleftrightarrow> date_added (rows df ! i) = Null))))"
proof -
  let ?kept = "filter (\<lambda>r. date_added r \<noteq> Null \<and> rating r \<noteq> None) raw"
  let ?df = "clean_table (to_datetime env) raw"
  have df: "?df = map (clean_row (to_datetime env)) ?kept"
    by (simp add: clean_table_rows dropna_subset_def)
  have per_row: "\<forall>i < length ?df.
       (\<forall>s. date_added (?kept ! i) = Raw s \<longrightarrow>
          date_added (?df ! i) =
            (case to_datetime env (strip s) of None \<Rightarrow> Null | Some d \<Rightarrow> Stamp d)) \<and>
       (\<forall>d. date_added (?df ! i) = Stamp d \<longrightarrow>
          year_added (?df ! i) = Some (year d) \<and>
          month_added (?df ! i) = Some (month_name (month d))) \<and>
       (year_added (?df ! i) = None \<longleftrightarrow> date_added (?df ! i) = Null) \<and>
       (month_added (?df ! i) = None \<longleftrightarrow> date_added (?df ! i) = Null)"
    unfolding df
    by (auto simp: cell_to_datetime_def cell_strip_def dt_year_def dt_month_name_def
        split: date_cell.splits option.splits)
  have len: "length ?df = length ?kept" by (simp add: df)
  have returns: "\<exists>df w'. load_and_clean_data env fp w = (Inr df, w') \<and>
        length (rows df) = length ?kept \<and>
        (\<forall>i < length (rows df).
           (\<forall>s. date_added (?kept ! i) = Raw s \<longrightarrow>
              date_added (rows df ! i) =
                (case to_datetime env (strip s) of None \<Rightarrow> Null | Some d \<Rightarrow> Stamp d)) \<and>
           (\<forall>d. date_added (rows df ! i) = Stamp d \<longrightarrow>
              year_added (rows df ! i) = Some (year d) \<and>
              month_added (rows df ! i) = Some (month_name (month d))) \<and>
           (year_added (rows df ! i) = None \<longleftrightarrow> date_added (rows df ! i) = Null) \<and>
           (month_added (rows df ! i) = None \<longleftrightarrow> date_added (rows df ! i) = Null))"
    if "raw = [] \<or> (\<exists>r \<in> set raw. date_added r \<noteq> Null)"
  proof (intro exI conjI)
    show "load_and_clean_data env fp w =
      (Inr (cleaned_frame (to_datetime env) (read_frame raw)),
       w\<lparr>stdout := stdout w @
        [Line (''Loading data from '' @ fp @ ''...''),
         Line (newline @ ''Missing values before cleaning:''),
         NullCounts (isnull_sum_raw raw),
         Line (newline @ ''Missing values after cleaning:''),
         NullCounts (isnull_sum (clean_table (to_datetime env) raw))]\<rparr>)"
      using assms that by (rule load_ok)
    show "length (rows (cleaned_frame (to_datetime env) (read_frame raw))) = length ?kept"
      using len by simp
    show "\<forall>i < length (rows (cleaned_frame (to_datetime env) (read_frame raw))).
           (\<forall>s. date_added (?kept ! i) = Raw s \<longrightarrow>
              date_added (rows (cleaned_frame (to_datetime env) (read_frame raw)) ! i) =
                (case to_datetime env (strip s) of None \<Rightarrow> Null | Some d \<Rightarrow> Stamp d)) \<and>
           (\<forall>d. date_added (rows (cleaned_frame (to_datetime env) (read_frame raw)) ! i) = Stamp d \<longrightarrow>
              year_added (rows (cleaned_frame (to_datetime env) (read_frame raw)) ! i) = Some (year d) \<and>
              month_added (rows (cleaned_frame (to_datetime env) (read_frame raw)) ! i) = Some (month_name (month d))) \<and>
           (year_added (rows (cleaned_frame (to_datetime env) (read_frame raw)) ! i) = None \<longleftrightarrow>
              date_added (rows (cleaned_frame (to_datetime env) (read_frame raw)) ! i) = Null) \<and>
           (month_added (rows (cleaned_frame (to_datetime env) (read_frame raw)) ! i) = None \<longleftrightarrow>
              date_added (rows (cleaned_frame (to_datetime env) (read_frame raw)) ! i) = Null)"
      using per_row by simp
  qed
  have raises: "fst (load_and_clean_data env fp w) = Inl (AttributeError (accessor_message env))"
    if "raw \<noteq> [] \<and> (\<forall>r \<in> set raw. date_added r = Null)"
    using load_raises [OF assms, of w] that by simp
  have strips: "\<forall>s. (\<exists>as bs. set as \<subseteq> set white_space \<and> set bs \<subseteq> set white_space \<and>
                 s = concat as @ strip s @ concat bs) \<and>
              (\<forall>u \<in> set white_space. \<not> prefix u (strip s) \<and> \<not> suffix u (strip s))"
    using strip_parts strip_ends by blast
  show ?thesis
    by (intro conjI impI) (rule strips, erule raises, erule returns)
qed

text \<open>
  The sample input: the padded date of the first record parses after stripping, the
  date of the second does not and the record stays, with null derived fields. A
  no-break space is stripped like a blank. On the record without a date the loader
  raises.
\<close>

theorem date_parse_and_derived_fields_witness:
  "read_csv (sample_env catalogue_rows []) filepath = Inr catalogue_rows \<and>
   date_added (catalogue_rows ! 0) = Raw '' September 25, 2021'' \<and>
   map date_added
       (rows (projr (fst (load_and_clean_data (sample_env catalogue_rows []) filepath empty_world))))
     = [Stamp \<lparr>year = 2021, month = September, day = 25\<rparr>, Null] \<and>
   map year_added
       (rows (projr (fst (load_and_clean_data (sample_env catalogue_rows []) filepath empty_world))))
     = [Some 2021, None] \<and>
   map month_added
       (rows (projr (fst (load_and_clean_data (sample_env catalogue_rows []) filepath empty_world))))
     = [Some ''September'', None] \<and>
   strip ([CHR 0xC2, CHR 0xA0] @ ''September 25, 2021 '') = ''September 25, 2021'' \<and>
   read_csv (sample_env undated_rows []) filepath = Inr undated_rows \<and>
   fst (load_and_clean_data (sample_env undated_rows []) filepath empty_world) =
     Inl (AttributeError ''Can only use .str accessor with string values!'')"
proof -
  have h: "read_csv (sample_env catalogue_rows []) filepath = Inr catalogue_rows"
    by simp
  have r: "date_added (catalogue_rows ! 0) = Raw '' September 25, 2021''"
    by (simp add: catalogue_rows_def sample_row_def)
  from date_parse_and_derived_fields [OF h, of empty_world] catalogue_dated
  obtain df w' where
    "load_and_clean_data (sample_env catalogue_rows []) filepath empty_world = (Inr df, w')"
    by blast
  then have df: "rows df = clean_table sample_to_datetime catalogue_rows"
    by (auto simp: load_sample catalogue_dated)
  have u: "read_csv (sample_env undated_rows []) filepath = Inr undated_rows"
    by simp
  from date_parse_and_derived_fields [OF u, of empty_world] undated
  have e: "fst (load_and_clean_data (sample_env undated_rows []) filepath empty_world) =
     Inl (AttributeError ''Can only use .str accessor with string values!'')"
    by simp
  have s: "strip ([CHR 0xC2, CHR 0xA0] @ ''September 25, 2021 '') = ''September 25, 2021''"
    by code_simp
  show ?thesis
    using h r u e s by (simp add: load_sample catalogue_dated catalogue_cleaned)
qed

text \<open>
  Claim C1 says that every record of the cleaned table has a non-null \<open>date_added\<close>.
  The second record of the sample has a date and a rating, so it is kept, but its date
  does not parse: in the cleaned table its \<open>date_added\<close> is null.
\<close>

theorem cleaned_date_added_null_counterexample:
  "rows (projr (fst (load_and_clean_data (sample_env catalogue_rows []) filepath empty_world))) =
     clean_table sample_to_datetime catalogue_rows \<and>
   date_added (catalogue_rows ! 1) = Raw ''not a date'' \<and>
   rating (catalogue_rows ! 1) = Some ''TV-MA'' \<and>
   date_added (clean_table sample_to_datetime catalogue_rows ! 1) = Null"
  by (simp add: load_sample catalogue_dated catalogue_cleaned)
    (simp add: catalogue_rows_def sample_row_def)

text \<open>
  Claim C1, amended. When the loader returns a cleaned table, which it does when the
  file can be read and its date column is an object column, every record of the table
  has a non-null rating and comes from an input record whose date and rating were both
  present: the records missing either are removed, and the derived columns are
  computed from the date column of the cleaned table alone, so no removed record
  contributes to them. The date of a kept record is the parse of its stripped text; it
  is a time stamp or, where the text does not parse, a null. When the file has records
  and none has a date, line 33 raises and there is no cleaned table.
\<close>

theorem cleaned_rows_from_complete_records:
  assumes "read_csv env fp = Inr raw"
  shows "(raw \<noteq> [] \<and> (\<forall>r \<in> set raw. date_added r = Null) \<longrightarrow>
       fst (load_and_clean_data env fp w) = Inl (AttributeError (accessor_message env))) \<and>
    (raw = [] \<or> (\<exists>r \<in> set raw. date_added r \<noteq> Null) \<longrightarrow>
      (\<exists>df w'. load_and_clean_data env fp w = (Inr df, w') \<and>
        (\<forall>r \<in> set (rows df). rating r \<noteq> None) \<and>
        map rating (rows df) =
          map rating (filter (\<lambda>r. date_added r \<noteq> Null \<and> rating r \<noteq> None) raw) \<and>
        map date_added (rows df) =
          map (\<lambda>r. cell_to_datetime (to_datetime env) (cell_strip (date_added r)))
            (filter (\<lambda>r. date_added r \<noteq> Null \<and> rating r \<noteq> None) raw) \<and>
        map year_added (rows df) = map (\<lambda>r. dt_year (date_added r)) (rows df) \<and>
        map month_added (rows df) = map (\<lambda>r. dt_month_name (date_added r)) (rows df) \<and>
        (\<forall>r \<in> set (rows df). date_added r = Null \<or> (\<exists>d. date_added r = Stamp d))))"
proof -
  let ?kept = "filter (\<lambda>r. date_added r \<noteq> Null \<and> rating r \<noteq> None) raw"
  let ?fr = "cleaned_frame (to_datetime env) (read_frame raw)"
  have df: "clean_table (to_datetime env) raw = map (clean_row (to_datetime env)) ?kept"
    by (simp add: clean_table_rows dropna_subset_def)
  have 1: "\<forall>r \<in> set (rows ?fr). rating r \<noteq> None"
    by (auto simp: df)
  have 2: "map rating (rows ?fr) = map rating ?kept"
    by (simp add: df)
  have 3: "map date_added (rows ?fr) =
      map (\<lambda>r. cell_to_datetime (to_datetime env) (cell_strip (date_added r))) ?kept"
    by (simp add: df)
  have 4: "map year_added (rows ?fr) = map (\<lambda>r. dt_year (date_added r)) (rows ?fr)"
    by (simp add: df)
  have 5: "map month_added (rows ?fr) = map (\<lambda>r. dt_month_name (date_added r)) (rows ?fr)"
    by (simp add: df)
  have 6: "\<forall>r \<in> set (rows ?fr). date_added r = Null \<or> (\<exists>d. date_added r = Stamp d)"
    by (auto simp: df cell_to_datetime_def cell_strip_def split: date_cell.splits option.splits)
  have returns: "\<exists>df w'. load_and_clean_data env fp w = (Inr df, w') \<and>
        (\<forall>r \<in> set (rows df). rating r \<noteq> None) \<and>
        map rating (rows df) = map rating ?kept \<and>
        map date_added (rows df) =
          map (\<lambda>r. cell_to_datetime (to_datetime env) (cell_strip (date_added r))) ?kept \<and>
        map year_added (rows df) = map (\<lambda>r. dt_year (date_added r)) (rows df) \<and>
        map month_added (rows df) = map (\<lambda>r. dt_month_name (date_added r)) (rows df) \<and>
        (\<forall>r \<in> set (rows df). date_added r = Null \<or> (\<exists>d. date_added r = Stamp d))"
    if "raw = [] \<or> (\<exists>r \<in> set raw. date_added r \<noteq> Null)"
    using load_ok [OF assms that, of w] 1 2 3 4 5 6 by blast
  have raises: "fst (load_and_clean_data env fp w) = Inl (AttributeError (accessor_message env))"
    if "raw \<noteq> [] \<and> (\<forall>r \<in> set raw. date_added r = Null)"
    using load_raises [OF assms, of w] that by simp
  show ?thesis
    by (intro conjI impI) (erule raises, erule returns)
qed

theorem cleaned_rows_from_complete_records_witness:
  "read_csv (sample_env catalogue_rows []) filepath = Inr catalogue_rows \<and>
   map rating
       (rows (projr (fst (load_and_clean_data (sample_env catalogue_rows []) filepath empty_world))))
     = [Some ''PG-13'', Some ''TV-MA''] \<and>
   map rating catalogue_rows = [Some ''PG-13'', Some ''TV-MA'', None] \<and>
   read_csv (sample_env undated_rows []) filepath = Inr undated_rows \<and>
   fst (load_and_clean_data (sample_env undated_rows []) filepath empty_world) =
     Inl (AttributeError ''Can only use .str accessor with string values!'')"
proof -
  have h: "read_csv (sample_env catalogue_rows []) filepath = Inr catalogue_rows"
    by simp
  from cleaned_rows_from_complete_records [OF h, of empty_world] catalogue_dated
  obtain df w' where
    "load_and_clean_data (sample_env catalogue_rows []) filepath empty_world = (Inr df, w')"
    by blast
  then have "rows df = clean_table sample_to_datetime catalogue_rows"
    by (auto simp: load_sample catalogue_dated)
  moreover have "map rating catalogue_rows = [Some ''PG-13'', Some ''TV-MA'', None]"
    by (simp add: catalogue_rows_def sample_row_def)
  moreover have u: "read_csv (sample_env undated_rows []) filepath = Inr undated_rows"
    by simp
  moreover from cleaned_rows_from_complete_records [OF u, of empty_world] undated
  have "fst (load_and_clean_data (sample_env undated_rows []) filepath empty_world) =
     Inl (AttributeError ''Can only use .str accessor with string values!'')"
    by simp
  ultimately show ?thesis
    using h by (simp add: load_sample catalogue_dated catalogue_cleaned)
qed

text \<open>
  Claim C8. When the loader returns a cleaned table, which it does when the file can be
  read and its date column is an object column, no record of the table has a null
  director, cast or country: a null in one of these three columns of a kept record has
  become \<open>Unknown\<close>, a value that was present is unchanged, and every other text
  column, the release year and the unnamed columns are those of the kept records, nulls
  included. The three fills are those of pandas 2, where the chained call updates the
  frame. When the file has records and none has a date, line 33 raises and there is no
  cleaned table.
\<close>

theorem unknown_fill_of_three_columns:
  assumes "read_csv env fp = Inr raw"
  shows "(raw \<noteq> [] \<and> (\<forall>r \<in> set raw. date_added r = Null) \<longrightarrow>
       fst (load_and_clean_data env fp w) = Inl (AttributeError (accessor_message env))) \<and>
    (raw = [] \<or> (\<exists>r \<in> set raw. date_added r \<noteq> Null) \<longrightarrow>
      (\<exists>df w'. load_and_clean_data env fp w = (Inr df, w') \<and>
        (\<forall>r \<in> set (rows df). director r \<noteq> None \<and> cast r \<noteq> None \<and> country r \<noteq> None) \<and>
        map director (rows df) =
          map (\<lambda>r. case director r of None \<Rightarrow> Some ''Unknown'' | Some x \<Rightarrow> Some x)
            (dropna_subset raw) \<and>
        map cast (rows df) =
          map (\<lambda>r. case cast r of None \<Rightarrow> Some ''Unknown'' | Some x \<Rightarrow> Some x)
            (dropna_subset raw) \<and>
        map country (rows df) =
          map (\<lambda>r. case country r of None \<Rightarrow> Some ''Unknown'' | Some x \<Rightarrow> Some x)
            (dropna_subset raw) \<and>
        map type (rows df) = map type (dropna_subset raw) \<and>
        map release_year (rows df) = map release_year (dropna_subset raw) \<and>
        map rating (rows df) = map rating (dropna_subset raw) \<and>
        map duration (rows df) = map duration (dropna_subset raw) \<and>
        map listed_in (rows df) = map listed_in (dropna_subset raw) \<and>
        map other_columns (rows df) = map other_columns (dropna_subset raw)))"
proof -
  let ?fr = "cleaned_frame (to_datetime env) (read_frame raw)"
  have df: "clean_table (to_datetime env) raw = map (clean_row (to_datetime env)) (dropna_subset raw)"
    by (simp add: clean_table_rows)
  have 1: "\<forall>r \<in> set (rows ?fr). director r \<noteq> None \<and> cast r \<noteq> None \<and> country r \<noteq> None"
    by (auto simp: df fillna_def split: option.splits)
  have 2: "map director (rows ?fr) =
      map (\<lambda>r. case director r of None \<Rightarrow> Some ''Unknown'' | Some x \<Rightarrow> Some x) (dropna_subset raw)"
    by (simp add: df fillna_def)
  have 3: "map cast (rows ?fr) =
      map (\<lambda>r. case cast r of None \<Rightarrow> Some ''Unknown'' | Some x \<Rightarrow> Some x) (dropna_subset raw)"
    by (simp add: df fillna_def)
  have 4: "map country (rows ?fr) =
      map (\<lambda>r. case country r of None \<Rightarrow> Some ''Unknown'' | Some x \<Rightarrow> Some x) (dropna_subset raw)"
    by (simp add: df fillna_def)
  have 5: "map type (rows ?fr) = map type (dropna_subset raw)"
    and 6: "map release_year (rows ?fr) = map release_year (dropna_subset raw)"
    and 7: "map rating (rows ?fr) = map rating (dropna_subset raw)"
    and 8: "map duration (rows ?fr) = map duration (dropna_subset raw)"
    and 9: "map listed_in (rows ?fr) = map listed_in (dropna_subset raw)"
    and 10: "map other_columns (rows ?fr) = map other_columns (dropna_subset raw)"
    by (simp_all add: df)
  have returns: "\<exists>df w'. load_and_clean_data env fp w = (Inr df, w') \<and>
        (\<forall>r \<in> set (rows df). director r \<noteq> None \<and> cast r \<noteq> None \<and> country r \<noteq> None) \<and>
        map director (rows df) =
          map (\<lambda>r. case director r of None \<Rightarrow> Some ''Unknown'' | Some x \<Rightarrow> Some x)
            (dropna_subset raw) \<and>
        map cast (rows df) =
          map (\<lambda>r. case cast r of None \<Rightarrow> Some ''Unknown'' | Some x \<Rightarrow> Some x)
            (dropna_subset raw) \<and>
        map country (rows df) =
          map (\<lambda>r. case country r of None \<Rightarrow> Some ''Unknown'' | Some x \<Rightarrow> Some x)
            (dropna_subset raw) \<and>
        map type (rows df) = map type (dropna_subset raw) \<and>
        map release_year (rows df) = map release_year (dropna_subset raw) \<and>
        map rating (rows df) = map rating (dropna_subset raw) \<and>
        map duration (rows df) = map duration (dropna_subset raw) \<and>
        map listed_in (rows df) = map listed_in (dropna_subset raw) \<and>
        map other_columns (rows df) = map other_columns (dropna_subset raw)"
    if "raw = [] \<or> (\<exists>r \<in> set raw. date_added r \<noteq> Null)"
    using load_ok [OF assms that, of w] 1 2 3 4 5 6 7 8 9 10 by blast
  have raises: "fst (load_and_clean_data env fp w) = Inl (AttributeError (accessor_message env))"
    if "raw \<noteq> [] \<and> (\<forall>r \<in> set raw. date_added r = Null)"
    using load_raises [OF assms, of w] that by simp
  show ?thesis
    by (intro conjI impI) (erule raises, erule returns)
qed

theorem unknown_fill_of_three_columns_witness:
  "read_csv (sample_env catalogue_rows []) filepath = Inr catalogue_rows \<and>
   map director catalogue_rows = [None, None, None] \<and>
   map director
       (rows (projr (fst (load_and_clean_data (sample_env catalogue_rows []) filepath empty_world))))
     = [Some ''Unknown'', Some ''Unknown''] \<and>
   map cast
       (rows (projr (fst (load_and_clean_data (sample_env catalogue_rows []) filepath empty_world))))
     = [Some ''Ama Qamata'', Some ''Ama Qamata''] \<and>
   map listed_in
       (rows (projr (fst (load_and_clean_data (sample_env catalogue_rows []) filepath empty_world))))
     = [Some ''Comedy, Drama'', None] \<and>
   read_csv (sample_env undated_rows []) filepath = Inr undated_rows \<and>
   fst (load_and_clean_data (sample_env undated_rows []) filepath empty_world) =
     Inl (AttributeError ''Can only use .str accessor with string values!'')"
proof -
  have h: "read_csv (sample_env catalogue_rows []) filepath = Inr catalogue_rows"
    by simp
  from unknown_fill_of_three_columns [OF h, of empty_world] catalogue_dated
  obtain df w' where
    "load_and_clean_data (sample_env catalogue_rows []) filepath empty_world = (Inr df, w')"
    by blast
  then have "rows df = clean_table sample_to_datetime catalogue_rows"
    by (auto simp: load_sample catalogue_dated)
  moreover have "map director catalogue_rows = [None, None, None]"
    by (simp add: catalogue_rows_def sample_row_def)
  moreover have u: "read_csv (sample_env undated_rows []) filepath = Inr undated_rows"
    by simp
  moreover from unknown_fill_of_three_columns [OF u, of empty_world] undated
  have "fst (load_and_clean_data (sample_env undated_rows []) filepath empty_world) =
     Inl (AttributeError ''Can only use .str accessor with string values!'')"
    by simp
  ultimately show ?thesis
    using h by (simp add: load_sample catalogue_dated catalogue_cleaned)
qed

section \<open>What each stage prints and writes\<close>

lemma plot_ok:
  "savefig env name = None \<Longrightarrow>
     plot env c name w = (Inr (), w\<lparr>files := files w @ [(name, c)]\<rparr>)"
  by (simp add: plot_def)

lemma plot_fail:
  "savefig env name = Some e \<Longrightarrow> plot env c name w = (Inl e, w)"
  by (simp add: plot_def)

lemma runtime_stage:
  "analyze_runtime env df w =
     (case duration_min (to_numeric env) df of
        None \<Rightarrow> (Inl (AttributeError (accessor_message env)),
                  w\<lparr>stdout := stdout w @ [Line (newline @ ''--- Runtime Analysis ---'')]\<rparr>)
      | Some d \<Rightarrow>
          (case savefig env ''movie_duration_dist.png'' of
             None \<Rightarrow> (Inr (), w\<lparr>stdout := stdout w @ [Line (newline @ ''--- Runtime Analysis ---'')],
                               files := files w @ [(''movie_duration_dist.png'', HistPlot d)]\<rparr>)
           | Some e \<Rightarrow> (Inl e, w\<lparr>stdout := stdout w @ [Line (newline @ ''--- Runtime Analysis ---'')]\<rparr>)))"
  by (simp add: analyze_runtime_def then_do_def print_def plot_def through_accessor_def
      raise_def return_def split: option.split)

lemma types_stage:
  "analyze_movies_vs_tv_shows env df w =
     (case savefig env ''distribution_type.png'' of
        None \<Rightarrow> (Inr (), w\<lparr>stdout := stdout w @
                            [Line (newline @ ''--- Movies vs TV Shows ---''), Counts (type_counts df)],
                          files := files w @ [(''distribution_type.png'', CountPlot (map type (rows df)))]\<rparr>)
      | Some e \<Rightarrow> (Inl e, w\<lparr>stdout := stdout w @
                            [Line (newline @ ''--- Movies vs TV Shows ---''), Counts (type_counts df)]\<rparr>))"
  by (simp add: analyze_movies_vs_tv_shows_def then_do_def print_def plot_def split: option.split)

lemma growth_stage:
  "analyze_content_growth env df w =
     (case savefig env ''content_growth.png'' of
        None \<Rightarrow> (Inr (), w\<lparr>stdout := stdout w @ [Line (newline @ ''--- Content Growth Over Time ---'')],
                          files := files w @ [(''content_growth.png'', LinePlot (data_by_year df))]\<rparr>)
      | Some e \<Rightarrow> (Inl e, w\<lparr>stdout := stdout w @ [Line (newline @ ''--- Content Growth Over Time ---'')]\<rparr>))"
  by (simp add: analyze_content_growth_def then_do_def print_def plot_def split: option.split)

lemma genres_stage:
  "identify_top_genres env df w =
     (case genres df of
        None \<Rightarrow> (Inl (AttributeError (accessor_message env)),
                  w\<lparr>stdout := stdout w @ [Line (newline @ ''--- Top Genres ---'')]\<rparr>)
      | Some g \<Rightarrow>
          (case savefig env ''top_genres.png'' of
             None \<Rightarrow> (Inr (), w\<lparr>stdout := stdout w @
                                 [Line (newline @ ''--- Top Genres ---''), Line ''Top 10 Genres:'',
                                  Counts (head 10 g)],
                               files := files w @ [(''top_genres.png'', BarPlot (head 10 g))]\<rparr>)
           | Some e \<Rightarrow> (Inl e, w\<lparr>stdout := stdout w @
                                 [Line (newline @ ''--- Top Genres ---''), Line ''Top 10 Genres:'',
                                  Counts (head 10 g)]\<rparr>)))"
  by (simp add: identify_top_genres_def then_do_def print_def plot_def through_accessor_def
      raise_def return_def split: option.split)

lemma years_stage:
  "analyze_release_years env df w =
     (case savefig env ''top_release_years.png'' of
        None \<Rightarrow> (Inr (), w\<lparr>stdout := stdout w @
                            [Line (newline @ ''--- Top Release Years ---''),
                             YearCounts (release_years df)],
                          files := files w @ [(''top_release_years.png'',
                             CountPlotOrder (map release_year (rows df)) (map fst (release_years df)))]\<rparr>)
      | Some e \<Rightarrow> (Inl e, w\<lparr>stdout := stdout w @
                            [Line (newline @ ''--- Top Release Years ---''),
                             YearCounts (release_years df)]\<rparr>))"
  by (simp add: analyze_release_years_def then_do_def print_def plot_def split: option.split)

section \<open>Category counts and counts by year\<close>

lemma sorted_desc_counts:
  assumes "sorted (map (\<lambda>(v, n). - int n) xs)"
  shows "sorted (rev (map snd xs))"
proof -
  have "sorted_wrt (\<lambda>x y. (case x of (v, n) \<Rightarrow> - int n) \<le> (case y of (v, n) \<Rightarrow> - int n)) xs"
    using assms by (simp add: sorted_map)
  then have "sorted_wrt (\<lambda>x y. snd y \<le> snd x) xs"
    by (rule sorted_wrt_mono_rel [rotated]) (auto split: prod.splits)
  then have "sorted_wrt (\<lambda>a b. b \<le> a) (map snd xs)"
    by (simp add: sorted_wrt_map)
  then show ?thesis
    by (simp add: sorted_wrt_rev)
qed

lemma value_counts_desc: "sorted (rev (map snd (value_counts col)))"
  by (rule sorted_desc_counts) (rule sorted_value_counts)

lemma count_list_pos: "x \<in> set xs \<Longrightarrow> 0 < count_list xs x"
  using count_list_0_iff [of xs x] by simp

lemma value_counts_entry:
  assumes "(v, n) \<in> set (value_counts (map f df))"
  shows "n = length (filter (\<lambda>r. f r = Some v) df) \<and> 0 < n"
proof -
  from assms have n: "n = count_list (dropna (map f df)) v" and v: "v \<in> set (dropna (map f df))"
    by (auto simp: set_value_counts)
  have "n = length (filter (\<lambda>c. c = Some v) (map f df))"
    using n by (simp add: count_list_dropna)
  then have 1: "n = length (filter (\<lambda>r. f r = Some v) df)"
    by (simp add: filter_map comp_def)
  from v have "0 < count_list (dropna (map f df)) v"
    by (rule count_list_pos)
  then show ?thesis using 1 n by simp
qed

lemma length_dropna_map:
  "length (dropna (map f df)) = length (filter (\<lambda>r. f r \<noteq> None) df)"
  by (simp add: length_dropna filter_map comp_def)

text \<open>
  Claim C7, amended. The counts of the category counter sum to the number of records
  whose \<open>type\<close> is not null, which is the number of rows when no type is null. There
  is one count for each distinct type, the number of records of that type, and the
  list the stage prints is in descending order of the counts.
\<close>

theorem type_counts_sum_and_order:
  "sum_list (map snd (type_counts df)) = length (filter (\<lambda>r. type r \<noteq> None) (rows df)) \<and>
   ((\<forall>r \<in> set (rows df). type r \<noteq> None) \<longrightarrow> sum_list (map snd (type_counts df)) = length (rows df)) \<and>
   sorted (rev (map snd (type_counts df))) \<and>
   distinct (map fst (type_counts df)) \<and>
   (\<forall>(v, n) \<in> set (type_counts df). n = length (filter (\<lambda>r. type r = Some v) (rows df))) \<and>
   stdout (snd (analyze_movies_vs_tv_shows env df w)) =
     stdout w @ [Line (newline @ ''--- Movies vs TV Shows ---''), Counts (type_counts df)]"
proof -
  have 1: "sum_list (map snd (type_counts df)) = length (filter (\<lambda>r. type r \<noteq> None) (rows df))"
    by (simp add: type_counts_def sum_value_counts length_dropna_map)
  have "(\<forall>r \<in> set (rows df). type r \<noteq> None) \<longrightarrow> filter (\<lambda>r. type r \<noteq> None) (rows df) = rows df"
    by simp
  with 1 have 2: "(\<forall>r \<in> set (rows df). type r \<noteq> None) \<longrightarrow> sum_list (map snd (type_counts df)) = length (rows df)"
    by simp
  have 3: "sorted (rev (map snd (type_counts df)))"
    by (simp add: type_counts_def value_counts_desc)
  have 4: "distinct (map fst (type_counts df))"
    by (simp add: type_counts_def distinct_fst_value_counts)
  have 5: "\<forall>(v, n) \<in> set (type_counts df). n = length (filter (\<lambda>r. type r = Some v) (rows df))"
    using value_counts_entry [of _ _ type "rows df"] by (auto simp: type_counts_def)
  have 6: "stdout (snd (analyze_movies_vs_tv_shows env df w)) =
     stdout w @ [Line (newline @ ''--- Movies vs TV Shows ---''), Counts (type_counts df)]"
    by (simp add: types_stage split: option.split)
  from 1 2 3 4 5 6 show ?thesis by blast
qed

lemma sample_cleaned_rows:
  "rows (sample_cleaned rs) = clean_table sample_to_datetime rs"
  by (simp add: sample_cleaned_def)

lemma samples_dated:
  "\<exists>r \<in> set untyped_rows. date_added r \<noteq> Null"
  "\<exists>r \<in> set growth_rows. date_added r \<noteq> Null"
  "\<exists>r \<in> set no_genre_rows. date_added r \<noteq> Null"
  "\<exists>r \<in> set genreless_rows. date_added r \<noteq> Null"
  "\<exists>r \<in> set durationless_rows. date_added r \<noteq> Null"
  "\<exists>r \<in> set odd_duration_rows. date_added r \<noteq> Null"
  "\<exists>r \<in> set runtime_rows. date_added r \<noteq> Null"
  "\<exists>r \<in> set movie_rows. date_added r \<noteq> Null"
  "\<exists>r \<in> set padded_rows. date_added r \<noteq> Null"
  by (simp_all add: untyped_rows_def growth_rows_def no_genre_rows_def genreless_rows_def
      durationless_rows_def odd_duration_rows_def runtime_rows_def movie_rows_def
      padded_rows_def sample_row_def)

lemma load_sample_cleaned:
  assumes "\<exists>r \<in> set rs. date_added r \<noteq> Null"
  shows "fst (load_and_clean_data (sample_env rs failing) filepath w) = Inr (sample_cleaned rs)"
  using assms by (simp add: load_sample sample_cleaned_def)

lemma untyped_cleaned_types:
  "map type (rows (sample_cleaned untyped_rows)) = [Some ''Movie'', None]"
  by code_simp

lemma untyped_type_counts:
  "type_counts (sample_cleaned untyped_rows) = [(''Movie'', 1)]"
  by code_simp

text \<open>
  Claim C7 says that the counts sum to the row count of every cleaned table. The
  loader neither fills nor drops on \<open>type\<close>, and the counter leaves nulls out: a
  cleaned table of two records, one of them without a type, has counts that sum to one.
\<close>

theorem type_counts_sum_counterexample:
  "fst (load_and_clean_data (sample_env untyped_rows []) filepath empty_world) =
     Inr (sample_cleaned untyped_rows) \<and>
   sum_list (map snd (type_counts (sample_cleaned untyped_rows))) = 1 \<and>
   length (rows (sample_cleaned untyped_rows)) = 2"
proof -
  have "length (map type (rows (sample_cleaned untyped_rows))) = 2"
    unfolding untyped_cleaned_types by simp
  then show ?thesis
    by (simp add: load_sample_cleaned samples_dated untyped_type_counts)
qed

lemma catalogue_type_counts:
  "type_counts (sample_cleaned catalogue_rows) =
     [(''Movie'', 1), (''TV Show'', 1)]"
  by code_simp

text \<open>
  On the cleaned sample input, where every record has a type, the counts sum to the
  two rows.
\<close>

theorem type_counts_sum_and_order_witness:
  "map type (rows (sample_cleaned catalogue_rows)) = [Some ''Movie'', Some ''TV Show''] \<and>
   sum_list (map snd (type_counts (sample_cleaned catalogue_rows))) = 2 \<and>
   length (rows (sample_cleaned catalogue_rows)) = 2"
proof -
  have t: "map type (rows (sample_cleaned catalogue_rows)) = [Some ''Movie'', Some ''TV Show'']"
    by (simp add: sample_cleaned_rows catalogue_cleaned)
  then have "\<forall>r \<in> set (rows (sample_cleaned catalogue_rows)). type r \<noteq> None"
    by (simp add: sample_cleaned_rows catalogue_cleaned)
  with type_counts_sum_and_order [of "sample_cleaned catalogue_rows"
      "sample_env catalogue_rows []" empty_world]
  have "sum_list (map snd (type_counts (sample_cleaned catalogue_rows))) =
        length (rows (sample_cleaned catalogue_rows))"
    by blast
  moreover have "length (rows (sample_cleaned catalogue_rows)) = 2"
    by (simp add: sample_cleaned_rows catalogue_cleaned)
  ultimately show ?thesis using t by simp
qed

text \<open>
  Claim C6. The temporal aggregator has one group for each year some record was added
  in, in strictly ascending order of the year, with the number of records of that
  year; a record with a null \<open>year_added\<close> is in no group, so the counts sum to the
  number of records with a year. This table is what the stage plots.
\<close>

theorem data_by_year_groups:
  "sorted_wrt (<) (map fst (data_by_year df)) \<and>
   set (map fst (data_by_year df)) = {y. \<exists>r \<in> set (rows df). year_added r = Some y} \<and>
   (\<forall>(y, n) \<in> set (data_by_year df).
      n = length (filter (\<lambda>r. year_added r = Some y) (rows df)) \<and> 0 < n) \<and>
   sum_list (map snd (data_by_year df)) = length (filter (\<lambda>r. year_added r \<noteq> None) (rows df)) \<and>
   (savefig env ''content_growth.png'' = None \<longrightarrow>
      files (snd (analyze_content_growth env df w)) =
        files w @ [(''content_growth.png'', LinePlot (data_by_year df))])"
proof -
  let ?xs = "dropna (map year_added (rows df))"
  have d: "data_by_year df = map (\<lambda>k. (k, count_list ?xs k)) (sort (unique ?xs))"
    by (simp add: data_by_year_def groupby_size_def Let_def)
  have keys: "map fst (data_by_year df) = sort (unique ?xs)"
    by (simp add: d comp_def)
  have 1: "sorted_wrt (<) (map fst (data_by_year df))"
    unfolding keys by (simp add: strict_sorted_iff)
  have 2: "set (map fst (data_by_year df)) = {y. \<exists>r \<in> set (rows df). year_added r = Some y}"
    unfolding keys by (auto simp: set_dropna image_iff) metis+
  have 3: "\<forall>(y, n) \<in> set (data_by_year df).
      n = length (filter (\<lambda>r. year_added r = Some y) (rows df)) \<and> 0 < n"
  proof -
    have "\<And>y. y \<in> set ?xs \<Longrightarrow> 0 < count_list ?xs y"
      by (rule count_list_pos)
    moreover have "\<And>y. count_list ?xs y = length (filter (\<lambda>r. year_added r = Some y) (rows df))"
      by (simp add: count_list_dropna filter_map comp_def)
    ultimately show ?thesis by (auto simp: d)
  qed
  have "sum_list (map snd (data_by_year df)) = sum_list (map (count_list ?xs) (sort (unique ?xs)))"
    by (simp add: d comp_def)
  also have "\<dots> = sum_list (map (count_list ?xs) (unique ?xs))"
    by (rule sum_list_sort_key)
  also have "\<dots> = length ?xs" by (rule sum_count_unique)
  finally have 4: "sum_list (map snd (data_by_year df)) = length (filter (\<lambda>r. year_added r \<noteq> None) (rows df))"
    by (simp add: length_dropna_map)
  have 5: "savefig env ''content_growth.png'' = None \<longrightarrow>
      files (snd (analyze_content_growth env df w)) =
        files w @ [(''content_growth.png'', LinePlot (data_by_year df))]"
    by (simp add: growth_stage)
  from 1 2 3 4 5 show ?thesis by blast
qed

lemma growth_by_year:
  "data_by_year (sample_cleaned growth_rows) = [(2019, 1), (2021, 2)]"
  by code_simp

lemma growth_years:
  "map year_added (rows (sample_cleaned growth_rows)) =
     [Some 2021, Some 2019, None, Some 2021]"
  by code_simp

text \<open>
  Four records, added in 2021, 2019, at an unparsed date, and in 2021.
\<close>

theorem data_by_year_groups_witness:
  "map year_added (rows (sample_cleaned growth_rows)) =
     [Some 2021, Some 2019, None, Some 2021] \<and>
   data_by_year (sample_cleaned growth_rows) = [(2019, 1), (2021, 2)] \<and>
   sorted_wrt (<) (map fst (data_by_year (sample_cleaned growth_rows)))"
  using data_by_year_groups [of "sample_cleaned growth_rows"
      "sample_env growth_rows []" empty_world]
  by (simp add: growth_by_year growth_years)

section \<open>The top release years\<close>

lemma length_value_counts:
  "length (value_counts col) = length (unique (dropna col))"
  by (simp add: value_counts_def Let_def)

lemma sorted_rev_take_drop:
  assumes "sorted (rev xs)" and "a \<in> set (take k xs)" and "b \<in> set (drop k xs)"
  shows "b \<le> a"
proof -
  have "sorted (rev (take k xs @ drop k xs))"
    using assms(1) by simp
  then have "sorted (rev (drop k xs) @ rev (take k xs))"
    by (simp only: rev_append)
  then show ?thesis
    using assms(2,3) by (auto simp: sorted_append)
qed

text \<open>
  Claim C5. With at least ten distinct release years in the table, the top-N ranker
  keeps exactly ten entries: the first ten of the frequency count, in its order, so
  ties stay as the count ordered them. The ten years are distinct, each with the number
  of its records, in descending order of these numbers, and no year left out has more
  records than a year kept. The stage prints this list.
\<close>

theorem top_release_years:
  assumes "10 \<le> length (unique (dropna (map release_year (rows df))))"
  shows "length (release_years df) = 10 \<and>
    release_years df = take 10 (value_counts (map release_year (rows df))) \<and>
    distinct (map fst (release_years df)) \<and>
    sorted (rev (map snd (release_years df))) \<and>
    (\<forall>(y, n) \<in> set (release_years df).
       n = length (filter (\<lambda>r. release_year r = Some y) (rows df))) \<and>
    (\<forall>y. (\<exists>r \<in> set (rows df). release_year r = Some y) \<and> y \<notin> fst ` set (release_years df) \<longrightarrow>
       (\<forall>(y', n) \<in> set (release_years df).
          length (filter (\<lambda>r. release_year r = Some y) (rows df)) \<le> n)) \<and>
    stdout (snd (analyze_release_years env df w)) =
      stdout w @ [Line (newline @ ''--- Top Release Years ---''), YearCounts (release_years df)]"
proof -
  let ?vc = "value_counts (map release_year (rows df))"
  have top: "release_years df = take 10 ?vc"
    by (simp add: release_years_def head_def)
  have 1: "length (release_years df) = 10"
    using assms by (simp add: top length_value_counts)
  have 3: "distinct (map fst (release_years df))"
    unfolding top take_map [symmetric] by (rule distinct_take) (rule distinct_fst_value_counts)
  have desc: "sorted (rev (map snd ?vc))"
    by (rule value_counts_desc)
  have "sorted (rev (take 10 (map snd ?vc) @ drop 10 (map snd ?vc)))"
    using desc by simp
  then have "sorted (rev (take 10 (map snd ?vc)))"
    by (simp only: rev_append sorted_append)
  then have 4: "sorted (rev (map snd (release_years df)))"
    by (simp add: top take_map)
  have 5: "\<forall>(y, n) \<in> set (release_years df).
       n = length (filter (\<lambda>r. release_year r = Some y) (rows df))"
    using value_counts_entry [of _ _ release_year "rows df"] by (auto simp: top dest: in_set_takeD)
  have 6: "\<forall>y. (\<exists>r \<in> set (rows df). release_year r = Some y) \<and> y \<notin> fst ` set (release_years df) \<longrightarrow>
       (\<forall>(y', n) \<in> set (release_years df).
          length (filter (\<lambda>r. release_year r = Some y) (rows df)) \<le> n)"
  proof (intro allI impI ballI, clarify)
    fix y r y' n
    assume r: "r \<in> set (rows df)" "release_year r = Some y"
      and out: "y \<notin> fst ` set (release_years df)"
      and inn: "(y', n) \<in> set (release_years df)"
    let ?m = "count_list (dropna (map release_year (rows df))) y"
    have "Some y \<in> set (map release_year (rows df))"
      using r by force
    then have "(y, ?m) \<in> set ?vc"
      by (simp add: set_value_counts set_dropna)
    then have "(y, ?m) \<in> set (take 10 ?vc) \<or> (y, ?m) \<in> set (drop 10 ?vc)"
      by (metis Un_iff append_take_drop_id set_append)
    moreover have "(y, ?m) \<notin> set (take 10 ?vc)"
      using out by (force simp: top)
    ultimately have "(y, ?m) \<in> set (drop 10 ?vc)" by blast
    then have b: "?m \<in> set (drop 10 (map snd ?vc))"
      by (force simp: drop_map)
    have a: "n \<in> set (take 10 (map snd ?vc))"
      using inn by (force simp: top take_map)
    have "?m \<le> n"
      using desc a b by (rule sorted_rev_take_drop)
    moreover have "?m = length (filter (\<lambda>r. release_year r = Some y) (rows df))"
      by (simp add: count_list_dropna filter_map comp_def)
    ultimately show "length (filter (\<lambda>r. release_year r = Some y) (rows df)) \<le> n"
      by simp
  qed
  have 7: "stdout (snd (analyze_release_years env df w)) =
      stdout w @ [Line (newline @ ''--- Top Release Years ---''), YearCounts (release_years df)]"
    by (simp add: years_stage split: option.split)
  from 1 top 3 4 5 6 7 show ?thesis by blast
qed

lemma year_rows_years:
  "map release_year (rows (sample_cleaned year_rows)) =
     map Some (concat (map (\<lambda>(y, k). replicate k y) year_tally))"
  by (simp add: sample_cleaned_rows clean_table_rows dropna_subset_def year_rows_def
      sample_row_def comp_def)

lemma year_rows_value_counts:
  "value_counts (map Some (concat (map (\<lambda>(y, k). replicate k y) year_tally))) =
     [(2011, 12), (2012, 11), (2013, 10), (2014, 9), (2018, 8), (2017, 7),
      (2016, 6), (2020, 5), (2015, 4), (2019, 3), (2009, 2), (2010, 1)]"
  by code_simp

lemma year_rows_unique:
  "length (unique (dropna (map Some (concat (map (\<lambda>(y, k). replicate k y) year_tally))))) = 12"
  by code_simp

text \<open>
  The example of the specification: twelve distinct years, 2020 five times, 2019 three
  times, 2018 eight times and so on. The two years left out, 2009 and 2010, are the two
  with the fewest records.
\<close>

theorem top_release_years_witness:
  "10 \<le> length (unique (dropna (map release_year (rows (sample_cleaned year_rows))))) \<and>
   value_counts (map release_year (rows (sample_cleaned year_rows))) =
     [(2011, 12), (2012, 11), (2013, 10), (2014, 9), (2018, 8), (2017, 7),
      (2016, 6), (2020, 5), (2015, 4), (2019, 3), (2009, 2), (2010, 1)] \<and>
   release_years (sample_cleaned year_rows) =
     [(2011, 12), (2012, 11), (2013, 10), (2014, 9), (2018, 8), (2017, 7),
      (2016, 6), (2020, 5), (2015, 4), (2019, 3)]"
proof -
  have h: "10 \<le> length (unique (dropna (map release_year (rows (sample_cleaned year_rows)))))"
    unfolding year_rows_years year_rows_unique by simp
  from top_release_years [of "sample_cleaned year_rows"
      "sample_env year_rows []" empty_world, OF h]
  have "release_years (sample_cleaned year_rows) =
      take 10 (value_counts (map release_year (rows (sample_cleaned year_rows))))"
    by blast
  then show ?thesis
    using h by (simp add: year_rows_years year_rows_value_counts)
qed

section \<open>Genres\<close>

lemma split_scan_not_Nil: "split_scan sep cur s \<noteq> []"
  by (induction sep cur s rule: split_scan.induct) simp_all

lemma str_split_length: "1 \<le> length (str_split sep s)"
  using split_scan_not_Nil [of sep "[]" s]
  by (cases "split_scan sep [] s") (simp_all add: str_split_def)

lemma stack_expand:
  "stack (str_split_expand sep col) =
     concat (map (\<lambda>c. case c of None \<Rightarrow> [] | Some s \<Rightarrow> str_split sep s) col)"
proof -
  have "\<And>w c. dropna (case map_option (str_split sep) c of
                  None \<Rightarrow> replicate w None
                | Some ps \<Rightarrow> map Some ps @ replicate (w - length ps) None) =
          (case c of None \<Rightarrow> [] | Some s \<Rightarrow> str_split sep s)"
    by (simp split: option.split)
  then show ?thesis
    by (simp add: stack_def str_split_expand_def Let_def comp_def)
qed

lemma genres_pieces:
  "genres df = (if listed_in_dtype df = Object then Some (genre_table (rows df)) else None)"
proof -
  have "listed_genres = (\<lambda>r. case listed_in r of None \<Rightarrow> [] | Some s \<Rightarrow> str_split '', '' s)"
    by (rule ext) (simp add: listed_genres_def)
  then show ?thesis
    by (simp add: genres_def str_accessor_def genre_table_def stack_expand comp_def)
qed

lemma sum_genre_table:
  "sum_list (map snd (genre_table rs)) = sum_list (map (\<lambda>r. length (listed_genres r)) rs)"
  by (simp add: genre_table_def sum_value_counts length_concat comp_def)

lemma count_of_value_counts:
  "count_of (value_counts (map Some xs)) v = count_list xs v"
  by (auto simp: count_of_def map_of_value_counts count_list_0_iff)

lemma count_of_genre_table:
  "count_of (genre_table rs) g = count_list (concat (map listed_genres rs)) g"
  by (simp add: genre_table_def count_of_value_counts)

lemma sum_list_ge_length:
  assumes "\<forall>x \<in> set xs. 1 \<le> f x"
  shows "length xs \<le> sum_list (map f xs) \<and>
    (sum_list (map f xs) = length xs \<longleftrightarrow> (\<forall>x \<in> set xs. f x = (1::nat)))"
  using assms
proof (induction xs)
  case Nil
  show ?case by simp
next
  case (Cons x xs)
  then have ih: "length xs \<le> sum_list (map f xs)"
    and eq: "sum_list (map f xs) = length xs \<longleftrightarrow> (\<forall>x \<in> set xs. f x = 1)"
    and x: "1 \<le> f x"
    by simp_all
  show ?case
  proof (cases "f x = 1")
    case True
    with ih eq show ?thesis by simp
  next
    case False
    with x have "1 < f x" by simp
    with ih False show ?thesis by auto
  qed
qed

lemma comedy_drama_split: "str_split '', '' ''Comedy, Drama'' = [''Comedy'', ''Drama'']"
  by (simp add: str_split_def)

lemma loaded_frame:
  assumes "read_csv env fp = Inr raw" and "load_and_clean_data env fp w = (Inr df, w')"
  shows "df = cleaned_frame (to_datetime env) (read_frame raw)"
proof (cases "raw = [] \<or> (\<exists>r \<in> set raw. date_added r \<noteq> Null)")
  case True
  from load_ok [OF assms(1) True, of w] assms(2) show ?thesis by simp
next
  case False
  then have "raw \<noteq> []" "\<forall>r \<in> set raw. date_added r = Null" by auto
  from load_raises [OF assms(1) this, of w] assms(2) show ?thesis by simp
qed

lemma loaded_listed_in_dtype:
  assumes "read_csv env fp = Inr raw" and "load_and_clean_data env fp w = (Inr df, w')"
  shows "listed_in_dtype df = Object \<longleftrightarrow> raw = [] \<or> (\<exists>r \<in> set raw. listed_in r \<noteq> None)"
  using loaded_frame [OF assms] by simp

lemma loaded_duration_dtype:
  assumes "read_csv env fp = Inr raw" and "load_and_clean_data env fp w = (Inr df, w')"
  shows "duration_dtype df = Object \<longleftrightarrow> raw = [] \<or> (\<exists>r \<in> set raw. duration r \<noteq> None)"
  using loaded_frame [OF assms] by simp

text \<open>
  Claim C3, amended. For a cleaned frame whose genre column is an object column and in
  which every record has a genre field, the genre table is computed and its counts sum
  to at least the number of rows, with equality exactly when every record lists a
  single genre. In such a frame a record whose genre field is \<^verbatim>\<open>Comedy, Drama\<close> adds
  one to the count of \<^verbatim>\<open>Comedy\<close>, one to the count of \<^verbatim>\<open>Drama\<close> and nothing to any
  other count, wherever it stands in the table. The genre column of the frame the
  loader returns is an object column exactly when the file has no record or some
  record of the file has a genre.
\<close>

theorem genre_counts_sum:
  "(listed_in_dtype df = Object \<and> (\<forall>r \<in> set (rows df). listed_in r \<noteq> None) \<longrightarrow>
      (\<exists>cs. genres df = Some cs \<and>
         length (rows df) \<le> sum_list (map snd cs) \<and>
         (sum_list (map snd cs) = length (rows df) \<longleftrightarrow>
            (\<forall>r \<in> set (rows df). \<exists>s. listed_in r = Some s \<and> length (str_split '', '' s) = 1)))) \<and>
   (listed_in_dtype df = Object \<and> listed_in r = Some ''Comedy, Drama'' \<longrightarrow>
      (\<exists>cs cs'. genres (df\<lparr>rows := df1 @ [r] @ df2\<rparr>) = Some cs \<and>
         genres (df\<lparr>rows := df1 @ df2\<rparr>) = Some cs' \<and>
         (\<forall>g. count_of cs g =
              count_of cs' g + (if g = ''Comedy'' \<or> g = ''Drama'' then 1 else 0)))) \<and>
   (read_csv env fp = Inr raw \<and> load_and_clean_data env fp w = (Inr df, w') \<longrightarrow>
      (listed_in_dtype df = Object \<longleftrightarrow> raw = [] \<or> (\<exists>r \<in> set raw. listed_in r \<noteq> None)))"
proof -
  have a: "\<exists>cs. genres df = Some cs \<and>
         length (rows df) \<le> sum_list (map snd cs) \<and>
         (sum_list (map snd cs) = length (rows df) \<longleftrightarrow>
            (\<forall>r \<in> set (rows df). \<exists>s. listed_in r = Some s \<and> length (str_split '', '' s) = 1))"
    if "listed_in_dtype df = Object \<and> (\<forall>r \<in> set (rows df). listed_in r \<noteq> None)"
  proof -
    from that have ob: "listed_in_dtype df = Object"
      and nn: "\<forall>r \<in> set (rows df). listed_in r \<noteq> None" by simp_all
    have len: "\<And>r. r \<in> set (rows df) \<Longrightarrow>
        \<exists>s. listed_in r = Some s \<and> length (listed_genres r) = length (str_split '', '' s)"
      using nn by (auto simp: listed_genres_def)
    then have "\<forall>r \<in> set (rows df). 1 \<le> length (listed_genres r)"
      using str_split_length by metis
    from sum_list_ge_length [OF this]
    have "length (rows df) \<le> sum_list (map snd (genre_table (rows df)))"
      and "sum_list (map snd (genre_table (rows df))) = length (rows df) \<longleftrightarrow>
        (\<forall>r \<in> set (rows df). length (listed_genres r) = 1)"
      by (simp_all add: sum_genre_table)
    moreover have "(\<forall>r \<in> set (rows df). length (listed_genres r) = 1) \<longleftrightarrow>
        (\<forall>r \<in> set (rows df). \<exists>s. listed_in r = Some s \<and> length (str_split '', '' s) = 1)"
      using len by (metis option.inject)
    moreover have "genres df = Some (genre_table (rows df))"
      using ob by (simp add: genres_pieces)
    ultimately show ?thesis by simp
  qed
  have b: "\<exists>cs cs'. genres (df\<lparr>rows := df1 @ [r] @ df2\<rparr>) = Some cs \<and>
         genres (df\<lparr>rows := df1 @ df2\<rparr>) = Some cs' \<and>
         (\<forall>g. count_of cs g =
              count_of cs' g + (if g = ''Comedy'' \<or> g = ''Drama'' then 1 else 0))"
    if "listed_in_dtype df = Object \<and> listed_in r = Some ''Comedy, Drama''"
  proof -
    from that have ob: "listed_in_dtype df = Object"
      and cd: "listed_in r = Some ''Comedy, Drama''" by simp_all
    have "listed_genres r = [''Comedy'', ''Drama'']"
      using cd by (simp add: listed_genres_def comedy_drama_split)
    then have "\<forall>g. count_of (genre_table (df1 @ [r] @ df2)) g =
           count_of (genre_table (df1 @ df2)) g +
             (if g = ''Comedy'' \<or> g = ''Drama'' then 1 else 0)"
      by (simp add: count_of_genre_table)
    moreover have "genres (df\<lparr>rows := df1 @ [r] @ df2\<rparr>) = Some (genre_table (df1 @ [r] @ df2))"
      and "genres (df\<lparr>rows := df1 @ df2\<rparr>) = Some (genre_table (df1 @ df2))"
      using ob by (simp_all add: genres_pieces)
    ultimately show ?thesis by blast
  qed
  have c: "listed_in_dtype df = Object \<longleftrightarrow> raw = [] \<or> (\<exists>r \<in> set raw. listed_in r \<noteq> None)"
    if "read_csv env fp = Inr raw \<and> load_and_clean_data env fp w = (Inr df, w')"
    using that loaded_listed_in_dtype by blast
  show ?thesis
    by (intro conjI impI) (erule a, erule b, erule c)
qed

lemma no_genre_cleaned:
  "map listed_in (rows (sample_cleaned no_genre_rows)) = [Some ''Dramas'', None]"
  by code_simp

lemma no_genre_genres:
  "genres (sample_cleaned no_genre_rows) = Some [(''Dramas'', 1)]"
  by code_simp

text \<open>
  Claim C3 says that the genre counts sum to at least the row count of every cleaned
  table. The loader neither fills nor drops on \<open>listed_in\<close>: a cleaned table of two
  records, one with a single genre and one with a null genre field, has counts that
  sum to one.
\<close>

theorem genre_counts_sum_counterexample:
  "fst (load_and_clean_data (sample_env no_genre_rows []) filepath empty_world) =
     Inr (sample_cleaned no_genre_rows) \<and>
   genres (sample_cleaned no_genre_rows) = Some [(''Dramas'', 1)] \<and>
   sum_list (map snd [(''Dramas'', 1::nat)]) = 1 \<and>
   length (rows (sample_cleaned no_genre_rows)) = 2"
proof -
  have "length (map listed_in (rows (sample_cleaned no_genre_rows))) = 2"
    unfolding no_genre_cleaned by simp
  then show ?thesis
    by (simp add: load_sample_cleaned samples_dated no_genre_genres)
qed

lemma growth_genres:
  "genres (sample_cleaned growth_rows) =
     Some [(''Kids' TV'', 2), (''Comedy'', 1), (''Drama'', 1), (''Dramas'', 1)]"
  by code_simp

lemma growth_listed:
  "map listed_in (rows (sample_cleaned growth_rows)) =
     [Some ''Comedy, Drama'', Some ''Dramas'', Some ''Kids' TV'', Some ''Kids' TV'']"
  by code_simp

lemma growth_object: "listed_in_dtype (sample_cleaned growth_rows) = Object"
  by (simp add: sample_cleaned_def growth_rows_def sample_row_def)

text \<open>
  Four records with the genre fields \<^verbatim>\<open>Comedy, Drama\<close>, \<^verbatim>\<open>Dramas\<close> and twice
  \<^verbatim>\<open>Kids' TV\<close>: five counts for four rows, one of them for \<^verbatim>\<open>Comedy\<close>, none without
  the first record.
\<close>

theorem genre_counts_sum_witness:
  "listed_in_dtype (sample_cleaned growth_rows) = Object \<and>
   map listed_in (rows (sample_cleaned growth_rows)) =
     [Some ''Comedy, Drama'', Some ''Dramas'', Some ''Kids' TV'', Some ''Kids' TV''] \<and>
   length (rows (sample_cleaned growth_rows)) = 4 \<and>
   genres (sample_cleaned growth_rows) =
     Some [(''Kids' TV'', 2), (''Comedy'', 1), (''Drama'', 1), (''Dramas'', 1)] \<and>
   length (rows (sample_cleaned growth_rows))
     \<le> sum_list (map snd (the (genres (sample_cleaned growth_rows)))) \<and>
   count_of (the (genres ((sample_cleaned growth_rows)
       \<lparr>rows := [] @ [hd (rows (sample_cleaned growth_rows))] @
                 tl (rows (sample_cleaned growth_rows))\<rparr>))) ''Comedy'' =
     count_of (the (genres ((sample_cleaned growth_rows)
       \<lparr>rows := [] @ tl (rows (sample_cleaned growth_rows))\<rparr>))) ''Comedy'' + 1 \<and>
   read_csv (sample_env growth_rows []) filepath = Inr growth_rows \<and>
   fst (load_and_clean_data (sample_env growth_rows []) filepath empty_world) =
     Inr (sample_cleaned growth_rows)"
proof -
  let ?G = "sample_cleaned growth_rows"
  have l: "map listed_in (rows ?G) =
     [Some ''Comedy, Drama'', Some ''Dramas'', Some ''Kids' TV'', Some ''Kids' TV'']"
    by (rule growth_listed)
  then have "length (map listed_in (rows ?G)) = 4" by simp
  then have n: "length (rows ?G) = 4" by simp
  have "None \<notin> set (map listed_in (rows ?G))"
    unfolding l by simp
  then have nn: "\<forall>r \<in> set (rows ?G). listed_in r \<noteq> None"
    by (metis image_eqI set_map)
  have "rows ?G \<noteq> []" using n by auto
  then have "listed_in (hd (rows ?G)) = hd (map listed_in (rows ?G))"
    by (simp add: hd_map)
  then have cd: "listed_in (hd (rows ?G)) = Some ''Comedy, Drama''"
    by (simp add: l)
  have ld: "load_and_clean_data (sample_env growth_rows []) filepath empty_world =
      (Inr ?G, snd (load_and_clean_data (sample_env growth_rows []) filepath empty_world))"
    using load_sample_cleaned [OF samples_dated(2), of "[]" empty_world]
    by (metis prod.collapse)
  note t = genre_counts_sum [of ?G "hd (rows ?G)" "[]" "tl (rows ?G)"
      "sample_env growth_rows []" filepath growth_rows empty_world
      "snd (load_and_clean_data (sample_env growth_rows []) filepath empty_world)"]
  from t growth_object nn obtain cs where cs: "genres ?G = Some cs"
    "length (rows ?G) \<le> sum_list (map snd cs)" by blast
  then have 1: "length (rows ?G) \<le> sum_list (map snd (the (genres ?G)))" by simp
  from t growth_object cd obtain ds ds' where
    "genres (?G\<lparr>rows := [] @ [hd (rows ?G)] @ tl (rows ?G)\<rparr>) = Some ds"
    "genres (?G\<lparr>rows := [] @ tl (rows ?G)\<rparr>) = Some ds'"
    "\<forall>g. count_of ds g = count_of ds' g + (if g = ''Comedy'' \<or> g = ''Drama'' then 1 else 0)"
    by blast
  then have 2: "count_of (the (genres (?G\<lparr>rows := [] @ [hd (rows ?G)] @ tl (rows ?G)\<rparr>))) ''Comedy'' =
     count_of (the (genres (?G\<lparr>rows := [] @ tl (rows ?G)\<rparr>))) ''Comedy'' + 1"
    by simp
  have 3: "fst (load_and_clean_data (sample_env growth_rows []) filepath empty_world) = Inr ?G"
    by (simp add: load_sample_cleaned samples_dated)
  from t ld have "listed_in_dtype ?G = Object \<longleftrightarrow>
      growth_rows = [] \<or> (\<exists>r \<in> set growth_rows. listed_in r \<noteq> None)"
    by simp
  with growth_object l n 1 2 3 show ?thesis
    by (simp add: growth_genres)
qed

lemma genreless_cleaned:
  "map listed_in (rows (sample_cleaned genreless_rows)) = [None, None]"
  by code_simp

lemma genreless_genres: "genres (sample_cleaned genreless_rows) = None"
  by code_simp

text \<open>
  Claim C10 says that a record with a null genre field causes no error. In the sample
  file of two records without genre the reader makes the genre column a column of
  numbers; the loader returns both records, and line 74 raises \<^verbatim>\<open>AttributeError\<close>
  after the stage has printed its header.
\<close>

theorem null_genre_raises_counterexample:
  "fst (load_and_clean_data (sample_env genreless_rows []) filepath empty_world) =
     Inr (sample_cleaned genreless_rows) \<and>
   map listed_in (rows (sample_cleaned genreless_rows)) = [None, None] \<and>
   genres (sample_cleaned genreless_rows) = None \<and>
   identify_top_genres (sample_env genreless_rows []) (sample_cleaned genreless_rows) empty_world =
     (Inl (AttributeError ''Can only use .str accessor with string values!''),
      \<lparr>stdout = [Line (newline @ ''--- Top Genres ---'')], files = []\<rparr>)"
  by (simp add: load_sample_cleaned samples_dated genreless_cleaned genreless_genres
      genres_stage empty_world_def)

text \<open>
  Claim C10, amended. In a cleaned frame whose genre column is an object column the
  genre table is computed, and its counts sum to the number of genres listed by the
  records whose genre field is not null. A record with a null genre field changes no
  count: the genre table is the same with and without it. The sum can therefore be
  smaller than the number of rows, as it is for the cleaned table of the two sample
  records. In a frame whose genre column is not an object column the stage prints its
  header and raises \<^verbatim>\<open>AttributeError\<close>. The genre column of the frame the loader
  returns is an object column exactly when the file has no record or some record of the
  file has a genre.
\<close>

theorem null_genre_contributes_nothing:
  "(listed_in_dtype df = Object \<longrightarrow>
      (\<exists>cs. genres df = Some cs \<and>
         sum_list (map snd cs) =
           sum_list (map (\<lambda>r. case listed_in r of None \<Rightarrow> 0
                               | Some s \<Rightarrow> length (str_split '', '' s)) (rows df)))) \<and>
   (listed_in_dtype df = Object \<and> listed_in r = None \<longrightarrow>
      genres (df\<lparr>rows := df1 @ [r] @ df2\<rparr>) = genres (df\<lparr>rows := df1 @ df2\<rparr>) \<and>
      genres (df\<lparr>rows := df1 @ df2\<rparr>) \<noteq> None) \<and>
   (listed_in_dtype df \<noteq> Object \<longrightarrow>
      genres df = None \<and>
      identify_top_genres env df w =
        (Inl (AttributeError (accessor_message env)),
         w\<lparr>stdout := stdout w @ [Line (newline @ ''--- Top Genres ---'')]\<rparr>)) \<and>
   (read_csv env fp = Inr raw \<and> load_and_clean_data env fp w0 = (Inr df, w1) \<longrightarrow>
      (listed_in_dtype df = Object \<longleftrightarrow> raw = [] \<or> (\<exists>r \<in> set raw. listed_in r \<noteq> None))) \<and>
   (\<exists>cs. genres (sample_cleaned no_genre_rows) = Some cs \<and>
      sum_list (map snd cs) < length (rows (sample_cleaned no_genre_rows)))"
proof -
  have f: "(\<lambda>r. length (listed_genres r)) =
      (\<lambda>r. case listed_in r of None \<Rightarrow> 0 | Some s \<Rightarrow> length (str_split '', '' s))"
    by (rule ext) (simp add: listed_genres_def split: option.split)
  have 1: "\<exists>cs. genres df = Some cs \<and>
         sum_list (map snd cs) =
           sum_list (map (\<lambda>r. case listed_in r of None \<Rightarrow> 0
                               | Some s \<Rightarrow> length (str_split '', '' s)) (rows df))"
    if "listed_in_dtype df = Object"
    using that f by (simp add: genres_pieces sum_genre_table)
  have 2: "genres (df\<lparr>rows := df1 @ [r] @ df2\<rparr>) = genres (df\<lparr>rows := df1 @ df2\<rparr>) \<and>
      genres (df\<lparr>rows := df1 @ df2\<rparr>) \<noteq> None"
    if "listed_in_dtype df = Object \<and> listed_in r = None"
    using that by (simp add: genres_pieces genre_table_def listed_genres_def)
  have 3: "genres df = None \<and>
      identify_top_genres env df w =
        (Inl (AttributeError (accessor_message env)),
         w\<lparr>stdout := stdout w @ [Line (newline @ ''--- Top Genres ---'')]\<rparr>)"
    if "listed_in_dtype df \<noteq> Object"
    using that by (simp add: genres_stage genres_pieces)
  have 4: "listed_in_dtype df = Object \<longleftrightarrow> raw = [] \<or> (\<exists>r \<in> set raw. listed_in r \<noteq> None)"
    if "read_csv env fp = Inr raw \<and> load_and_clean_data env fp w0 = (Inr df, w1)"
    using that loaded_listed_in_dtype by blast
  have "length (map listed_in (rows (sample_cleaned no_genre_rows))) = 2"
    unfolding no_genre_cleaned by simp
  then have 5: "\<exists>cs. genres (sample_cleaned no_genre_rows) = Some cs \<and>
      sum_list (map snd cs) < length (rows (sample_cleaned no_genre_rows))"
    by (simp add: no_genre_genres)
  show ?thesis
    by (intro conjI) (rule impI, erule 1, rule impI, erule 2, rule impI, erule 3,
      rule impI, erule 4, rule 5)
qed

lemma no_genre_object: "listed_in_dtype (sample_cleaned no_genre_rows) = Object"
  by (simp add: sample_cleaned_def no_genre_rows_def sample_row_def)

lemma genreless_not_object: "listed_in_dtype (sample_cleaned genreless_rows) \<noteq> Object"
  by (simp add: sample_cleaned_def genreless_rows_def sample_row_def)

text \<open>
  The second of the two sample records has no genre field; the genre table with it is
  the genre table of the first record alone. The frame of the two records without
  genre is not an object column, and the stage raises on it.
\<close>

theorem null_genre_contributes_nothing_witness:
  "listed_in_dtype (sample_cleaned no_genre_rows) = Object \<and>
   listed_in (last (rows (sample_cleaned no_genre_rows))) = None \<and>
   genres ((sample_cleaned no_genre_rows)
       \<lparr>rows := butlast (rows (sample_cleaned no_genre_rows)) @
                 [last (rows (sample_cleaned no_genre_rows))] @ []\<rparr>) =
     genres ((sample_cleaned no_genre_rows)
       \<lparr>rows := butlast (rows (sample_cleaned no_genre_rows)) @ []\<rparr>) \<and>
   genres (sample_cleaned no_genre_rows) = Some [(''Dramas'', 1)] \<and>
   listed_in_dtype (sample_cleaned genreless_rows) \<noteq> Object \<and>
   fst (identify_top_genres (sample_env genreless_rows []) (sample_cleaned genreless_rows)
          empty_world) =
     Inl (AttributeError ''Can only use .str accessor with string values!'') \<and>
   read_csv (sample_env no_genre_rows []) filepath = Inr no_genre_rows \<and>
   fst (load_and_clean_data (sample_env no_genre_rows []) filepath empty_world) =
     Inr (sample_cleaned no_genre_rows)"
proof -
  let ?G = "sample_cleaned no_genre_rows"
  let ?H = "sample_cleaned genreless_rows"
  have "length (map listed_in (rows ?G)) = 2"
    unfolding no_genre_cleaned by simp
  then have ne: "rows ?G \<noteq> []" by auto
  then have "listed_in (last (rows ?G)) = last (map listed_in (rows ?G))"
    by (simp add: last_map)
  then have h: "listed_in (last (rows ?G)) = None"
    by (simp add: no_genre_cleaned)
  from null_genre_contributes_nothing [of ?G "last (rows ?G)" "butlast (rows ?G)" "[]"
      "sample_env no_genre_rows []" empty_world filepath no_genre_rows empty_world
      "snd (load_and_clean_data (sample_env no_genre_rows []) filepath empty_world)"]
    no_genre_object h
  have 1: "genres (?G\<lparr>rows := butlast (rows ?G) @ [last (rows ?G)] @ []\<rparr>) =
      genres (?G\<lparr>rows := butlast (rows ?G) @ []\<rparr>)"
    by blast
  from null_genre_contributes_nothing [of ?H "last (rows ?H)" "butlast (rows ?H)" "[]"
      "sample_env genreless_rows []" empty_world filepath genreless_rows empty_world
      "snd (load_and_clean_data (sample_env genreless_rows []) filepath empty_world)"]
    genreless_not_object
  have 2: "fst (identify_top_genres (sample_env genreless_rows []) ?H empty_world) =
     Inl (AttributeError ''Can only use .str accessor with string values!'')"
    by simp
  have 3: "fst (load_and_clean_data (sample_env no_genre_rows []) filepath empty_world) = Inr ?G"
    by (simp add: load_sample_cleaned samples_dated)
  from no_genre_object h 1 2 3 genreless_not_object show ?thesis
    by (simp add: no_genre_genres)
qed

section \<open>Movie durations\<close>

lemma duration_min_rows:
  "duration_min tn df =
     (if duration_dtype df = Object
      then Some (concat (map (\<lambda>r. case duration r of
                        None \<Rightarrow> []
                      | Some s \<Rightarrow> (case tn (str_replace '' min'' [] s) of
                                     None \<Rightarrow> [] | Some n \<Rightarrow> [n]))
             (filter (\<lambda>r. type r = Some ''Movie'') (rows df))))
      else None)"
proof -
  have h: "dropna (to_numeric_coerce tn (map (map_option (str_replace '' min'' [])) (map duration ms))) =
     concat (map (\<lambda>r. case duration r of
                        None \<Rightarrow> []
                      | Some s \<Rightarrow> (case tn (str_replace '' min'' [] s) of
                                     None \<Rightarrow> [] | Some n \<Rightarrow> [n])) ms)" for ms
  proof (induction ms)
    case Nil
    show ?case by (simp add: to_numeric_coerce_def)
  next
    case (Cons r ms)
    then have "dropna (to_numeric_coerce tn (map (map_option (str_replace '' min'' [])) (map duration ms))) =
      concat (map (\<lambda>r. case duration r of
                        None \<Rightarrow> []
                      | Some s \<Rightarrow> (case tn (str_replace '' min'' [] s) of
                                     None \<Rightarrow> [] | Some n \<Rightarrow> [n])) ms)" .
    then show ?case
      by (simp add: to_numeric_coerce_def split: option.split del: map_map)
  qed
  show ?thesis
    by (simp add: duration_min_def duration_min_text_def movies_def str_accessor_def h
        del: map_map)
qed

lemma scan_step:
  assumes "\<not> prefix old (c # cs)"
  shows "replace_scan old new (c # cs) = c # replace_scan old new cs"
proof -
  have "take (length old) (c # cs) \<noteq> old"
    using assms by (metis take_is_prefix)
  then show ?thesis by (simp only: replace_scan.simps if_False)
qed

lemma min_not_straddling:
  assumes "\<not> prefix '' min'' (c # cs)"
  shows "\<not> prefix '' min'' ((c # cs) @ '' min'' @ b)"
proof (cases cs)
  case Nil then show ?thesis by simp
next
  case (Cons x xs)
  note c1 = this
  show ?thesis
  proof (cases xs)
    case Nil with c1 show ?thesis by simp
  next
    case (Cons y ys)
    note c2 = this
    show ?thesis
    proof (cases ys)
      case Nil with c1 c2 show ?thesis by simp
    next
      case (Cons z zs)
      with c1 c2 assms show ?thesis by auto
    qed
  qed
qed

lemma replace_without_min:
  "\<not> sublist '' min'' a \<Longrightarrow> str_replace '' min'' [] a = a"
proof (induction a)
  case Nil then show ?case by (simp add: str_replace_def)
next
  case (Cons c cs)
  then have p: "\<not> prefix '' min'' (c # cs)" and "\<not> sublist '' min'' cs"
    by (auto simp: sublist_Cons_right)
  with Cons.IH have "replace_scan '' min'' [] cs = cs"
    by (simp add: str_replace_def)
  with scan_step [OF p, of "[]"] show ?case
    by (simp add: str_replace_def)
qed

lemma replace_leftmost_min:
  "\<not> sublist '' min'' a \<Longrightarrow>
     str_replace '' min'' [] (a @ '' min'' @ b) = a @ str_replace '' min'' [] b"
proof (induction a)
  case Nil then show ?case by (simp add: str_replace_def)
next
  case (Cons c cs)
  then have p: "\<not> prefix '' min'' (c # cs)" and "\<not> sublist '' min'' cs"
    by (auto simp: sublist_Cons_right)
  with Cons.IH have ih: "replace_scan '' min'' [] (cs @ '' min'' @ b) = cs @ replace_scan '' min'' [] b"
    by (simp add: str_replace_def)
  from min_not_straddling [OF p, of b]
  have "\<not> prefix '' min'' (c # (cs @ '' min'' @ b))" by simp
  from scan_step [OF this, of "[]"] ih
  have "replace_scan '' min'' [] ((c # cs) @ '' min'' @ b) = (c # cs) @ replace_scan '' min'' [] b"
    by simp
  then show ?case by (simp add: str_replace_def)
qed

lemma sample_90: "sample_to_numeric ''90'' = Some 90"
  by code_simp

lemma sample_45: "sample_to_numeric ''45'' = Some 45"
  by code_simp

lemma two_rows:
  assumes "map f df = [a, b]"
  obtains r1 r2 where "df = [r1, r2]" "f r1 = a" "f r2 = b"
proof -
  from assms have "length df = 2"
    by (metis length_map length_Cons list.size(3) numeral_2_eq_2)
  then obtain r1 r2 where "df = [r1, r2]"
    by (metis (no_types, opaque_lifting) Suc_length_conv length_0_conv numeral_2_eq_2)
  with assms that show ?thesis by simp
qed

text \<open>
  Claim C4, amended. In a cleaned frame whose duration column is an object column the
  distribution is computed: it has one value for each record of type \<^verbatim>\<open>Movie\<close> whose
  duration, with every occurrence of \<^verbatim>\<open>' min'\<close> removed, converts to a number, in
  table order, and nothing else. The removal leaves a text in which \<^verbatim>\<open>' min'\<close> does
  not occur as it is; after a part in which it does not occur it drops the occurrence
  that follows and goes on in the same way with the rest, whatever the rest is, so
  that no occurrence is left. A frame of two movies with the durations \<^verbatim>\<open>90 min\<close> and
  \<^verbatim>\<open>45 min\<close> gives 90 and 45. A record that is not a movie, has no duration or has one
  that does not convert adds nothing. The stage draws its histogram from this
  distribution. In a frame whose duration column is not an object column the stage
  prints its header and raises \<^verbatim>\<open>AttributeError\<close>. The duration column of the frame
  the loader returns is an object column exactly when the file has no record or some
  record of the file has a duration.
\<close>

theorem movie_durations:
  "(duration_dtype df = Object \<longrightarrow>
      duration_min tn df =
        Some (concat (map (\<lambda>r. case duration r of
                        None \<Rightarrow> []
                      | Some s \<Rightarrow> (case tn (str_replace '' min'' [] s) of
                                     None \<Rightarrow> [] | Some n \<Rightarrow> [n]))
          (filter (\<lambda>r. type r = Some ''Movie'') (rows df))))) \<and>
   (\<not> sublist '' min'' a \<longrightarrow>
      str_replace '' min'' [] a = a \<and>
      str_replace '' min'' [] (a @ '' min'' @ b) = a @ str_replace '' min'' [] b) \<and>
   (duration_dtype dg = Object \<and>
    map type (rows dg) = [Some ''Movie'', Some ''Movie''] \<and>
    map duration (rows dg) = [Some ''90 min'', Some ''45 min''] \<longrightarrow>
      duration_min sample_to_numeric dg = Some [90, 45]) \<and>
   (duration_dtype df = Object \<and>
    (type r \<noteq> Some ''Movie'' \<or> duration r = None \<or>
     (\<exists>s. duration r = Some s \<and> tn (str_replace '' min'' [] s) = None)) \<longrightarrow>
      duration_min tn (df\<lparr>rows := df1 @ [r] @ df2\<rparr>) = duration_min tn (df\<lparr>rows := df1 @ df2\<rparr>) \<and>
      duration_min tn (df\<lparr>rows := df1 @ df2\<rparr>) \<noteq> None) \<and>
   (duration_dtype df = Object \<and> savefig env ''movie_duration_dist.png'' = None \<longrightarrow>
      (\<exists>d. duration_min (to_numeric env) df = Some d \<and>
         files (snd (analyze_runtime env df w)) =
           files w @ [(''movie_duration_dist.png'', HistPlot d)])) \<and>
   (duration_dtype df \<noteq> Object \<longrightarrow>
      duration_min tn df = None \<and>
      analyze_runtime env df w =
        (Inl (AttributeError (accessor_message env)),
         w\<lparr>stdout := stdout w @ [Line (newline @ ''--- Runtime Analysis ---'')]\<rparr>)) \<and>
   (read_csv env fp = Inr raw \<and> load_and_clean_data env fp w0 = (Inr df, w1) \<longrightarrow>
      (duration_dtype df = Object \<longleftrightarrow> raw = [] \<or> (\<exists>r \<in> set raw. duration r \<noteq> None)))"
proof -
  have 1: "duration_dtype df = Object \<longrightarrow>
      duration_min tn df =
        Some (concat (map (\<lambda>r. case duration r of
                        None \<Rightarrow> []
                      | Some s \<Rightarrow> (case tn (str_replace '' min'' [] s) of
                                     None \<Rightarrow> [] | Some n \<Rightarrow> [n]))
          (filter (\<lambda>r. type r = Some ''Movie'') (rows df))))"
    by (simp add: duration_min_rows)
  have 2: "\<not> sublist '' min'' a \<longrightarrow>
      str_replace '' min'' [] a = a \<and>
      str_replace '' min'' [] (a @ '' min'' @ b) = a @ str_replace '' min'' [] b"
    using replace_without_min replace_leftmost_min by blast
  have 3: "duration_dtype dg = Object \<and>
    map type (rows dg) = [Some ''Movie'', Some ''Movie''] \<and>
    map duration (rows dg) = [Some ''90 min'', Some ''45 min''] \<longrightarrow>
      duration_min sample_to_numeric dg = Some [90, 45]"
  proof (intro impI, elim conjE)
    assume ob: "duration_dtype dg = Object"
      and ty: "map type (rows dg) = [Some ''Movie'', Some ''Movie'']"
      and du: "map duration (rows dg) = [Some ''90 min'', Some ''45 min'']"
    from ty obtain r1 r2 where dg: "rows dg = [r1, r2]"
      and t: "type r1 = Some ''Movie''" "type r2 = Some ''Movie''"
      by (rule two_rows)
    from du dg have d: "duration r1 = Some ''90 min''" "duration r2 = Some ''45 min''"
      by simp_all
    have "str_replace '' min'' [] ''90 min'' = ''90''"
      and "str_replace '' min'' [] ''45 min'' = ''45''"
      by (simp_all add: str_replace_def)
    then show "duration_min sample_to_numeric dg = Some [90, 45]"
      by (simp add: duration_min_rows ob dg t d sample_90 sample_45)
  qed
  have 4: "duration_dtype df = Object \<and>
    (type r \<noteq> Some ''Movie'' \<or> duration r = None \<or>
     (\<exists>s. duration r = Some s \<and> tn (str_replace '' min'' [] s) = None)) \<longrightarrow>
      duration_min tn (df\<lparr>rows := df1 @ [r] @ df2\<rparr>) = duration_min tn (df\<lparr>rows := df1 @ df2\<rparr>) \<and>
      duration_min tn (df\<lparr>rows := df1 @ df2\<rparr>) \<noteq> None"
    by (auto simp: duration_min_rows)
  have 5: "duration_dtype df = Object \<and> savefig env ''movie_duration_dist.png'' = None \<longrightarrow>
      (\<exists>d. duration_min (to_numeric env) df = Some d \<and>
         files (snd (analyze_runtime env df w)) =
           files w @ [(''movie_duration_dist.png'', HistPlot d)])"
    by (simp add: runtime_stage duration_min_rows)
  have 6: "duration_dtype df \<noteq> Object \<longrightarrow>
      duration_min tn df = None \<and>
      analyze_runtime env df w =
        (Inl (AttributeError (accessor_message env)),
         w\<lparr>stdout := stdout w @ [Line (newline @ ''--- Runtime Analysis ---'')]\<rparr>)"
    by (simp add: runtime_stage duration_min_rows)
  have 7: "read_csv env fp = Inr raw \<and> load_and_clean_data env fp w0 = (Inr df, w1) \<longrightarrow>
      (duration_dtype df = Object \<longleftrightarrow> raw = [] \<or> (\<exists>r \<in> set raw. duration r \<noteq> None))"
    using loaded_duration_dtype by blast
  show ?thesis
    by (intro conjI) (rule 1, rule 2, rule 3, rule 4, rule 5, rule 6, rule 7)
qed

lemma runtime_cleaned_types:
  "map type (rows (sample_cleaned runtime_rows)) =
     [Some ''Movie'', Some ''Movie'', Some ''Movie'', Some ''TV Show'']"
  by code_simp

lemma runtime_cleaned_durations:
  "map duration (rows (sample_cleaned runtime_rows)) =
     [Some ''90 min'', Some ''45 min'', None, Some ''2 Seasons'']"
  by code_simp

lemma runtime_distribution:
  "duration_min sample_to_numeric (sample_cleaned runtime_rows) = Some [90, 45]"
  by code_simp

lemma movie_cleaned_types:
  "map type (rows (sample_cleaned movie_rows)) = [Some ''Movie'', Some ''Movie'']"
  by code_simp

lemma movie_cleaned_durations:
  "map duration (rows (sample_cleaned movie_rows)) = [Some ''90 min'', Some ''45 min'']"
  by code_simp

lemma movie_object: "duration_dtype (sample_cleaned movie_rows) = Object"
  by (simp add: sample_cleaned_def movie_rows_def sample_row_def)

lemma durationless_not_object: "duration_dtype (sample_cleaned durationless_rows) \<noteq> Object"
  by (simp add: sample_cleaned_def durationless_rows_def sample_row_def)

text \<open>
  The example of the specification: the durations \<^verbatim>\<open>90 min\<close>, \<^verbatim>\<open>45 min\<close>, a null and
  \<^verbatim>\<open>2 Seasons\<close>, the last on a series. In \<^verbatim>\<open>1 min5\<close> the occurrence is not at the
  end and is removed all the same. On the frame of the one movie without duration the
  stage raises.
\<close>

theorem movie_durations_witness:
  "\<not> sublist '' min'' ''1'' \<and> str_replace '' min'' [] (''1'' @ '' min'' @ ''5'') = ''15'' \<and>
   \<not> sublist '' min'' ''2 Seasons'' \<and> str_replace '' min'' [] ''2 Seasons'' = ''2 Seasons'' \<and>
   duration_dtype (sample_cleaned movie_rows) = Object \<and>
   map type (rows (sample_cleaned movie_rows)) = [Some ''Movie'', Some ''Movie''] \<and>
   map duration (rows (sample_cleaned movie_rows)) = [Some ''90 min'', Some ''45 min''] \<and>
   duration_min sample_to_numeric (sample_cleaned movie_rows) = Some [90, 45] \<and>
   map type (rows (sample_cleaned runtime_rows)) =
     [Some ''Movie'', Some ''Movie'', Some ''Movie'', Some ''TV Show''] \<and>
   map duration (rows (sample_cleaned runtime_rows)) =
     [Some ''90 min'', Some ''45 min'', None, Some ''2 Seasons''] \<and>
   duration_min sample_to_numeric (sample_cleaned runtime_rows) = Some [90, 45] \<and>
   duration_dtype (sample_cleaned durationless_rows) \<noteq> Object \<and>
   fst (analyze_runtime (sample_env durationless_rows []) (sample_cleaned durationless_rows)
          empty_world) =
     Inl (AttributeError ''Can only use .str accessor with string values!'')"
proof -
  let ?M = "sample_cleaned movie_rows"
  let ?D = "sample_cleaned durationless_rows"
  note t = movie_durations [of ?M sample_to_numeric "''1''" "''5''" ?M "hd (rows ?M)" "[]" "[]"
      "sample_env movie_rows []" empty_world filepath movie_rows empty_world
      "snd (load_and_clean_data (sample_env movie_rows []) filepath empty_world)"]
  have n1: "\<not> sublist '' min'' ''1''" by (simp add: sublist_Cons_right)
  have n2: "\<not> sublist '' min'' ''2 Seasons''" by (simp add: sublist_Cons_right)
  from movie_durations [of ?M sample_to_numeric "''2 Seasons''" "''5''" ?M "hd (rows ?M)" "[]" "[]"
      "sample_env movie_rows []" empty_world filepath movie_rows empty_world
      "snd (load_and_clean_data (sample_env movie_rows []) filepath empty_world)"] n2
  have a2: "str_replace '' min'' [] ''2 Seasons'' = ''2 Seasons''"
    by blast
  from n1 t have "str_replace '' min'' [] (''1'' @ '' min'' @ ''5'') = ''1'' @ str_replace '' min'' [] ''5''"
    by blast
  then have a: "str_replace '' min'' [] (''1'' @ '' min'' @ ''5'') = ''15''"
    by (simp add: str_replace_def)
  from t movie_object movie_cleaned_types movie_cleaned_durations
  have b: "duration_min sample_to_numeric ?M = Some [90, 45]" by blast
  from movie_durations [of ?D sample_to_numeric "''1''" "''5''" ?D "hd (rows ?D)" "[]" "[]"
      "sample_env durationless_rows []" empty_world filepath durationless_rows empty_world
      "snd (load_and_clean_data (sample_env durationless_rows []) filepath empty_world)"]
    durationless_not_object
  have c: "fst (analyze_runtime (sample_env durationless_rows []) ?D empty_world) =
     Inl (AttributeError ''Can only use .str accessor with string values!'')"
    by simp
  show ?thesis
    using n1 n2 a a2 b c movie_object durationless_not_object
    by (simp add: movie_cleaned_types movie_cleaned_durations runtime_cleaned_types
        runtime_cleaned_durations runtime_distribution)
qed

lemma odd_duration_by_code:
  "duration_min sample_to_numeric (sample_cleaned odd_duration_rows) = Some [90, 15]"
  by code_simp

lemma odd_duration_by_suffix:
  "duration_min_by_suffix sample_to_numeric (sample_cleaned odd_duration_rows) = Some [90]"
  by code_simp

lemma odd_duration_cleaned:
  "map duration (rows (sample_cleaned odd_duration_rows)) =
     [Some ''90 min'', Some ''1 min5'']"
  by code_simp

text \<open>
  Claim C4 says that the trailing suffix \<^verbatim>\<open>' min'\<close> is stripped. Line 95 replaces
  every occurrence instead. The movie duration \<^verbatim>\<open>1 min5\<close> has no trailing suffix, so
  stripping would leave it as it is, not a number, and out of the distribution; the
  code turns it into \<^verbatim>\<open>15\<close> and the distribution contains 15.
\<close>

theorem duration_suffix_counterexample:
  "fst (load_and_clean_data (sample_env odd_duration_rows []) filepath empty_world) =
     Inr (sample_cleaned odd_duration_rows) \<and>
   map duration (rows (sample_cleaned odd_duration_rows)) =
     [Some ''90 min'', Some ''1 min5''] \<and>
   str_replace '' min'' [] ''1 min5'' = ''15'' \<and>
   strip_min_suffix ''1 min5'' = ''1 min5'' \<and>
   duration_min sample_to_numeric (sample_cleaned odd_duration_rows) = Some [90, 15] \<and>
   duration_min_by_suffix sample_to_numeric (sample_cleaned odd_duration_rows) = Some [90]"
proof -
  have "str_replace '' min'' [] ''1 min5'' = ''15''"
    by (simp add: str_replace_def)
  moreover have "strip_min_suffix ''1 min5'' = ''1 min5''"
    by (simp add: strip_min_suffix_def)
  ultimately show ?thesis
    by (simp add: odd_duration_by_code odd_duration_by_suffix odd_duration_cleaned
        load_sample_cleaned samples_dated)
qed

section \<open>The pipeline and its failures\<close>

lemma main_missing_file:
  assumes "read_csv env filepath = Inl (FileNotFoundError m)"
  shows "main env w = w\<lparr>stdout := stdout w @
           [Line (''Loading data from '' @ filepath @ ''...''),
            Line (''Error: File not found at '' @ filepath)]\<rparr>"
  by (simp add: main_def main_body_def then_do_def load_fail [OF assms] print_def)

lemma main_other_read_failure:
  assumes "read_csv env filepath = Inl (AttributeError m) \<or>
    read_csv env filepath = Inl (OtherException m)"
  shows "main env w = w\<lparr>stdout := stdout w @
           [Line (''Loading data from '' @ filepath @ ''...''),
            Line (''An error occurred: '' @ m)]\<rparr>"
  using assms
  by (auto simp: main_def main_body_def then_do_def load_fail print_def)

lemma main_no_dates:
  assumes "read_csv env filepath = Inr raw"
    and "raw \<noteq> []" and "\<forall>r \<in> set raw. date_added r = Null"
  shows "main env w = w\<lparr>stdout := stdout w @
           [Line (''Loading data from '' @ filepath @ ''...''),
            Line (newline @ ''Missing values before cleaning:''),
            NullCounts (isnull_sum_raw raw),
            Line (''An error occurred: '' @ accessor_message env)]\<rparr>"
  by (simp add: main_def main_body_def then_do_def load_raises [OF assms] print_def)

lemma first_failure:
  obtains (f1) e where "savefig env ''distribution_type.png'' = Some e"
  | (f2) e where "savefig env ''distribution_type.png'' = None"
      "savefig env ''content_growth.png'' = Some e"
  | (a3) "savefig env ''distribution_type.png'' = None"
      "savefig env ''content_growth.png'' = None" "listed_in_dtype (read_frame raw) \<noteq> Object"
  | (f3) e where "savefig env ''distribution_type.png'' = None"
      "savefig env ''content_growth.png'' = None" "listed_in_dtype (read_frame raw) = Object"
      "savefig env ''top_genres.png'' = Some e"
  | (a4) "savefig env ''distribution_type.png'' = None"
      "savefig env ''content_growth.png'' = None" "listed_in_dtype (read_frame raw) = Object"
      "savefig env ''top_genres.png'' = None" "duration_dtype (read_frame raw) \<noteq> Object"
  | (f4) e where "savefig env ''distribution_type.png'' = None"
      "savefig env ''content_growth.png'' = None" "listed_in_dtype (read_frame raw) = Object"
      "savefig env ''top_genres.png'' = None" "duration_dtype (read_frame raw) = Object"
      "savefig env ''movie_duration_dist.png'' = Some e"
  | (f5) e where "savefig env ''distribution_type.png'' = None"
      "savefig env ''content_growth.png'' = None" "listed_in_dtype (read_frame raw) = Object"
      "savefig env ''top_genres.png'' = None" "duration_dtype (read_frame raw) = Object"
      "savefig env ''movie_duration_dist.png'' = None"
      "savefig env ''top_release_years.png'' = Some e"
  | (ok) "savefig env ''distribution_type.png'' = None"
      "savefig env ''content_growth.png'' = None" "listed_in_dtype (read_frame raw) = Object"
      "savefig env ''top_genres.png'' = None" "duration_dtype (read_frame raw) = Object"
      "savefig env ''movie_duration_dist.png'' = None"
      "savefig env ''top_release_years.png'' = None"
proof (cases "savefig env ''distribution_type.png''")
  case (Some e) then show ?thesis by (rule f1)
next
  case a: None
  show ?thesis
  proof (cases "savefig env ''content_growth.png''")
    case (Some e) with a show ?thesis by (rule f2)
  next
    case b: None
    show ?thesis
    proof (cases "listed_in_dtype (read_frame raw) = Object")
      case False with a b show ?thesis by (rule a3)
    next
      case l: True
      show ?thesis
      proof (cases "savefig env ''top_genres.png''")
        case (Some e) with a b l show ?thesis by (rule f3)
      next
        case c: None
        show ?thesis
        proof (cases "duration_dtype (read_frame raw) = Object")
          case False with a b l c show ?thesis by (rule a4)
        next
          case d: True
          show ?thesis
          proof (cases "savefig env ''movie_duration_dist.png''")
            case (Some e) with a b l c d show ?thesis by (rule f4)
          next
            case s: None
            show ?thesis
            proof (cases "savefig env ''top_release_years.png''")
              case (Some e) with a b l c d s show ?thesis by (rule f5)
            next
              case None with a b l c d s show ?thesis by (rule ok)
            qed
          qed
        qed
      qed
    qed
  qed
qed

lemmas main_unfold =
  main_def main_body_def then_do_def print_def
  types_stage growth_stage genres_stage runtime_stage years_stage stage_files_def
  stage_error_def genres_pieces duration_min_rows

lemma main_files:
  assumes "read_csv env filepath = Inr raw"
    and "raw = [] \<or> (\<exists>r \<in> set raw. date_added r \<noteq> Null)"
  shows "map fst (files (main env w)) =
           map fst (files w) @ takeWhile (\<lambda>n. stage_error env raw n = None) stage_files"
proof (cases rule: first_failure [where env = env and raw = raw])
  case (f1 e) then show ?thesis by (cases e) (simp_all add: main_unfold load_ok [OF assms])
next
  case (f2 e) then show ?thesis by (cases e) (simp_all add: main_unfold load_ok [OF assms])
next
  case a3 then show ?thesis by (simp add: main_unfold load_ok [OF assms])
next
  case (f3 e) then show ?thesis by (cases e) (simp_all add: main_unfold load_ok [OF assms])
next
  case a4 then show ?thesis by (simp add: main_unfold load_ok [OF assms])
next
  case (f4 e) then show ?thesis by (cases e) (simp_all add: main_unfold load_ok [OF assms])
next
  case (f5 e) then show ?thesis by (cases e) (simp_all add: main_unfold load_ok [OF assms])
next
  case ok then show ?thesis by (simp add: main_unfold load_ok [OF assms])
qed

lemma main_last_line:
  assumes "read_csv env filepath = Inr raw"
    and "raw = [] \<or> (\<exists>r \<in> set raw. date_added r \<noteq> Null)"
  shows "last (stdout (main env w)) =
     (case find (\<lambda>n. stage_error env raw n \<noteq> None) stage_files of
        None \<Rightarrow> Line (newline @ ''Analysis complete. Plots saved as PNG files.'')
      | Some n \<Rightarrow>
          (case the (stage_error env raw n) of
             FileNotFoundError m \<Rightarrow> Line (''Error: File not found at '' @ filepath)
           | AttributeError e \<Rightarrow> Line (''An error occurred: '' @ e)
           | OtherException e \<Rightarrow> Line (''An error occurred: '' @ e)))"
proof (cases rule: first_failure [where env = env and raw = raw])
  case (f1 e) then show ?thesis by (cases e) (simp_all add: main_unfold load_ok [OF assms])
next
  case (f2 e) then show ?thesis by (cases e) (simp_all add: main_unfold load_ok [OF assms])
next
  case a3 then show ?thesis by (simp add: main_unfold load_ok [OF assms])
next
  case (f3 e) then show ?thesis by (cases e) (simp_all add: main_unfold load_ok [OF assms])
next
  case a4 then show ?thesis by (simp add: main_unfold load_ok [OF assms])
next
  case (f4 e) then show ?thesis by (cases e) (simp_all add: main_unfold load_ok [OF assms])
next
  case (f5 e) then show ?thesis by (cases e) (simp_all add: main_unfold load_ok [OF assms])
next
  case ok then show ?thesis by (simp add: main_unfold load_ok [OF assms])
qed

lemma catalogue_dtypes:
  "listed_in_dtype (read_frame catalogue_rows) = Object"
  "duration_dtype (read_frame catalogue_rows) = Object"
  by (simp_all add: catalogue_rows_def sample_row_def)

lemma genreless_dtypes:
  "listed_in_dtype (read_frame genreless_rows) \<noteq> Object"
  "duration_dtype (read_frame genreless_rows) = Object"
  by (simp_all add: genreless_rows_def sample_row_def)




end
